theory Spec2Isabelle
  imports Main
begin

section \<open>Text\<close>

text \<open>
  A Python \<open>str\<close> is a sequence of Unicode code points: slicing, \<open>strip\<close>, \<open>split\<close> and
  \<open>startswith\<close> all count code points. A text is therefore modelled as the list of its
  code points. The ASCII literals of \<open>main.py\<close> are written with \<open>str\<close>; the Cyrillic
  ones are spelled out code point by code point, with an English gloss.
\<close>

type_synonym ustring = "nat list"

definition str :: "string \<Rightarrow> ustring" where
  "str s = map of_char s"

text \<open>
  \<open>str.isspace\<close> of CPython 3 for one code point: the characters of bidirectional type
  WS, B or S and of category Zs.
\<close>

definition isspace :: "nat \<Rightarrow> bool" where
  "isspace c \<longleftrightarrow>
     (9 \<le> c \<and> c \<le> 13) \<or> (28 \<le> c \<and> c \<le> 32) \<or> c = 133 \<or> c = 160 \<or> c = 5760 \<or>
     (8192 \<le> c \<and> c \<le> 8202) \<or> c = 8232 \<or> c = 8233 \<or> c = 8239 \<or> c = 8287 \<or> c = 12288"

definition lstrip :: "ustring \<Rightarrow> ustring" where
  "lstrip s = dropWhile isspace s"

definition rstrip :: "ustring \<Rightarrow> ustring" where
  "rstrip s = rev (dropWhile isspace (rev s))"

definition strip :: "ustring \<Rightarrow> ustring" where
  \<comment> \<open>\<open>s.strip()\<close>\<close>
  "strip s = rstrip (lstrip s)"

definition startswith :: "ustring \<Rightarrow> ustring \<Rightarrow> bool" where
  \<comment> \<open>\<open>s.startswith(p)\<close>\<close>
  "startswith s p \<longleftrightarrow> take (length p) s = p"

definition contains :: "ustring \<Rightarrow> ustring \<Rightarrow> bool" where
  \<comment> \<open>\<open>p in s\<close>: \<open>p\<close> occurs in \<open>s\<close> as a contiguous piece\<close>
  "contains s p \<longleftrightarrow> list_ex (\<lambda>i. take (length p) (drop i s) = p) [0..<Suc (length s)]"

fun break_at :: "nat \<Rightarrow> ustring \<Rightarrow> (ustring \<times> ustring) option" where
  "break_at sep [] = None"
| "break_at sep (c # cs) =
     (if c = sep then Some ([], cs)
      else (case break_at sep cs of None \<Rightarrow> None | Some (p, q) \<Rightarrow> Some (c # p, q)))"

definition py_partition :: "nat \<Rightarrow> ustring \<Rightarrow> ustring \<times> ustring" where
  \<comment> \<open>\<open>s.partition(sep)\<close> for a one-character separator: the parts before and after it\<close>
  "py_partition sep s = (case break_at sep s of None \<Rightarrow> (s, []) | Some (p, q) \<Rightarrow> (p, q))"

fun py_split :: "nat \<Rightarrow> nat \<Rightarrow> ustring \<Rightarrow> ustring list" where
  \<comment> \<open>\<open>s.split(sep, maxsplit)\<close> for a one-character separator\<close>
  "py_split sep 0 s = [s]"
| "py_split sep (Suc n) s =
     (case break_at sep s of None \<Rightarrow> [s] | Some (p, q) \<Rightarrow> p # py_split sep n q)"

definition first_word :: "ustring \<Rightarrow> ustring option" where
  \<comment> \<open>\<open>s.split()[0]\<close>; \<open>None\<close> is the \<open>IndexError\<close> of a text without a word\<close>
  "first_word s =
     (let w = takeWhile (\<lambda>c. \<not> isspace c) (dropWhile isspace s)
      in if w = [] then None else Some w)"

fun str_nat :: "nat \<Rightarrow> ustring" where
  \<comment> \<open>\<open>str(n)\<close> of a non-negative integer: its decimal digits\<close>
  "str_nat n = (if n < 10 then [48 + n] else str_nat (n div 10) @ [48 + n mod 10])"

declare str_nat.simps [simp del]

text \<open>
  Case mapping. \<open>lower_chr\<close> and \<open>upper_chr\<close> cover the ASCII and the Russian letters, and
  the Kelvin sign, the only character outside ASCII whose lower case is an ASCII letter:
  \<open>lower s\<close> equals an ASCII text exactly when Python's \<open>s.lower()\<close> does, which is all the
  command filter below asks of it. \<open>capitalize\<close> is applied by the source to the two
  entries of \<open>SCHOOLS\<close> only.
\<close>

definition lower_chr :: "nat \<Rightarrow> nat" where
  "lower_chr c =
     (if 65 \<le> c \<and> c \<le> 90 then c + 32
      else if 1040 \<le> c \<and> c \<le> 1071 then c + 32
      else if c = 1025 then 1105
      else if c = 8490 then 107
      else c)"

definition upper_chr :: "nat \<Rightarrow> nat" where
  "upper_chr c =
     (if 97 \<le> c \<and> c \<le> 122 then c - 32
      else if 1072 \<le> c \<and> c \<le> 1103 then c - 32
      else if c = 1105 then 1025
      else c)"

definition lower :: "ustring \<Rightarrow> ustring" where
  "lower s = map lower_chr s"

definition capitalize :: "ustring \<Rightarrow> ustring" where
  "capitalize s = (case s of [] \<Rightarrow> [] | c # cs \<Rightarrow> upper_chr c # lower cs)"

section \<open>Configuration\<close>

text \<open>
  \<open>config.json\<close> gives the administrator's identity. The bot's own user name is what
  Telegram's \<open>getMe\<close> returns; the command filter compares it with the mention of a
  command such as \<open>/start@some_bot\<close>.
\<close>

record config =
  ADMIN_ID :: int
  bot_username :: ustring

definition MANAGER_USERNAME :: ustring where
  "MANAGER_USERNAME = str ''qwuzinw''"

section \<open>The database\<close>

record tg_user =
  user_id :: int
  username :: "ustring option"
  first_name :: "ustring option"
  last_name :: "ustring option"

type_synonym user_row = "ustring \<times> ustring \<times> ustring \<times> ustring"

text \<open>
  The table \<open>users\<close> is the list of its rows in the order of their integer primary key,
  the order in which SQLite scans a rowid table. The table \<open>settings\<close> maps a key to its
  value.
\<close>

datatype fsm_state =
    waiting_broadcast_text | waiting_broadcast_confirm | waiting_card_number
  | waiting_recipient_fio | waiting_subject | waiting_school

record session =
  state :: "fsm_state option"
  data :: "string \<rightharpoonup> ustring"

text \<open>
  The state of the bot: the two tables of \<open>data.db\<close> and the memory storage of the
  finite-state machine, which keeps one state and one data dictionary for every pair of
  a chat and a user. A pair never written to reads as no state and no data.
\<close>

record bot_state =
  users :: "(int \<times> user_row) list"
  settings :: "ustring \<rightharpoonup> ustring"
  fsm :: "int \<times> int \<Rightarrow> session"

definition no_session :: session where
  "no_session = \<lparr>state = None, data = Map.empty\<rparr>"

definition default_recipient_fio :: ustring where
  \<comment> \<open>"F.I.O. of the recipient"\<close>
  "default_recipient_fio =
     [1060, 46, 1048, 46, 1054, 46, 32, 1055, 1086, 1083, 1091, 1095, 1072, 1090, 1077,
     1083, 1103]"

definition insert_or_ignore ::
  "ustring \<Rightarrow> ustring \<Rightarrow> (ustring \<rightharpoonup> ustring) \<Rightarrow> (ustring \<rightharpoonup> ustring)" where
  "insert_or_ignore k v m = (case m k of None \<Rightarrow> m(k \<mapsto> v) | Some _ \<Rightarrow> m)"

definition init_db :: "bot_state \<Rightarrow> bot_state" where
  "init_db st =
     st\<lparr>settings :=
          insert_or_ignore (str ''recipient_fio'') default_recipient_fio
            (insert_or_ignore (str ''card_number'') (str ''0000 0000 0000 0000'')
               (settings st))\<rparr>"

definition db_set_setting :: "ustring \<Rightarrow> ustring \<Rightarrow> bot_state \<Rightarrow> bot_state" where
  "db_set_setting k v st = st\<lparr>settings := (settings st)(k \<mapsto> v)\<rparr>"

definition db_get_setting :: "bot_state \<Rightarrow> ustring \<Rightarrow> ustring" where
  "db_get_setting st k = (case settings st k of None \<Rightarrow> [] | Some v \<Rightarrow> v)"

definition or_empty :: "ustring option \<Rightarrow> ustring" where
  \<comment> \<open>\<open>x or ''\<close>\<close>
  "or_empty x = (case x of None \<Rightarrow> [] | Some s \<Rightarrow> s)"

definition replace_into :: "int \<Rightarrow> 'v \<Rightarrow> (int \<times> 'v) list \<Rightarrow> (int \<times> 'v) list" where
  \<comment> \<open>\<open>REPLACE INTO\<close>: a row with the same primary key is deleted, then the row is inserted\<close>
  "replace_into k v t = insort_key fst (k, v) (filter (\<lambda>r. fst r \<noteq> k) t)"

definition db_add_user :: "tg_user \<Rightarrow> ustring \<Rightarrow> bot_state \<Rightarrow> bot_state" where
  \<comment> \<open>the second argument is \<open>datetime.utcnow().isoformat()\<close>, read from the clock\<close>
  "db_add_user usr now st =
     st\<lparr>users :=
          replace_into (user_id usr)
            (or_empty (username usr), or_empty (first_name usr), or_empty (last_name usr), now)
            (users st)\<rparr>"

definition db_get_all_user_ids :: "bot_state \<Rightarrow> int list" where
  "db_get_all_user_ids st = map fst (users st)"

section \<open>Products\<close>

definition SUBJECTS :: "(ustring \<times> ustring \<times> nat) list" where
  \<comment> \<open>Profile mathematics, Russian, Biology, Informatics, History, Social studies,
      Chemistry, Physics; a dictionary of Python keeps the order of its literal\<close>
  "SUBJECTS =
    [(str ''math_p'',
     [1055, 1088, 1086, 1092, 1080, 1083, 1100, 1085, 1072, 1103, 32, 1084, 1072, 1090,
     1077, 1084, 1072, 1090, 1080, 1082, 1072], 499),
     (str ''rus'',
     [1056, 1091, 1089, 1089, 1082, 1080, 1081, 32, 1103, 1079, 1099, 1082], 499),
     (str ''bio'',
     [1041, 1080, 1086, 1083, 1086, 1075, 1080, 1103], 349),
     (str ''info'',
     [1048, 1085, 1092, 1086, 1088, 1084, 1072, 1090, 1080, 1082, 1072], 349),
     (str ''hist'',
     [1048, 1089, 1090, 1086, 1088, 1080, 1103], 349),
     (str ''soc'',
     [1054, 1073, 1097, 1077, 1089, 1090, 1074, 1086, 1079, 1085, 1072, 1085, 1080, 1077], 349),
     (str ''chem'',
     [1061, 1080, 1084, 1080, 1103], 329),
     (str ''phys'',
     [1060, 1080, 1079, 1080, 1082, 1072], 329)]"

definition SCHOOLS :: "ustring list" where
  \<comment> \<open>"stobalny" and "pifagor"\<close>
  "SCHOOLS =
    [
     [1089, 1090, 1086, 1073, 1072, 1083, 1100, 1085, 1099, 1081],
     [1087, 1080, 1092, 1072, 1075, 1086, 1088]]"

section \<open>Keyboards\<close>

datatype button = CallbackButton ustring ustring | UrlButton ustring ustring

type_synonym keyboard = "button list list"

text \<open>
  \<open>InlineKeyboardMarkup.add\<close> with one button starts a new row, whatever the row width;
  \<open>insert\<close> appends to the last row while it is shorter than the row width.
\<close>

definition kb_add :: "keyboard \<Rightarrow> button \<Rightarrow> keyboard" where
  "kb_add kb b = kb @ [[b]]"

definition kb_insert :: "nat \<Rightarrow> keyboard \<Rightarrow> button \<Rightarrow> keyboard" where
  "kb_insert row_width kb b =
     (if kb \<noteq> [] \<and> length (last kb) < row_width then butlast kb @ [last kb @ [b]]
      else kb_add kb b)"

definition buy_label :: ustring where
  \<comment> \<open>"Buy access", after a money emoji\<close>
  "buy_label =
     [128184, 32, 1050, 1091, 1087, 1080, 1090, 1100, 32, 1076, 1086, 1089, 1090, 1091,
     1087]"

definition back_label :: ustring where
  \<comment> \<open>"Back", after an arrow emoji\<close>
  "back_label =
     [11013, 65039, 32, 1053, 1072, 1079, 1072, 1076]"

definition dash :: ustring where
  \<comment> \<open>an em dash between two spaces\<close>
  "dash =
     [32, 8212, 32]"

definition rouble :: ustring where
  "rouble =
     [8381]"

definition broadcast_label :: ustring where
  \<comment> \<open>"Broadcast", after a megaphone emoji\<close>
  "broadcast_label =
     [128227, 32, 1056, 1072, 1089, 1089, 1099, 1083, 1082, 1072]"

definition set_card_label :: ustring where
  \<comment> \<open>"Set the card number", after a card emoji\<close>
  "set_card_label =
     [128179, 32, 1059, 1082, 1072, 1079, 1072, 1090, 1100, 32, 1085, 1086, 1084, 1077,
     1088, 32, 1082, 1072, 1088, 1090, 1099]"

definition make_start_keyboard :: keyboard where
  "make_start_keyboard = kb_add [] (CallbackButton buy_label (str ''buy''))"

definition make_subjects_keyboard :: keyboard where
  "make_subjects_keyboard =
     kb_add
       (foldl (\<lambda>kb (key, title, price).
                 kb_insert 2 kb
                   (CallbackButton (title @ dash @ str_nat price @ rouble) (str ''subj|'' @ key)))
          [] SUBJECTS)
       (CallbackButton back_label (str ''back_start''))"

definition make_schools_keyboard :: "ustring \<Rightarrow> keyboard" where
  "make_schools_keyboard subject_key =
     kb_add
       (foldl (\<lambda>kb s.
                 kb_insert 2 kb
                   (CallbackButton (capitalize s) (str ''school|'' @ subject_key @ str ''|'' @ s)))
          [] SCHOOLS)
       (CallbackButton back_label (str ''back_subjects''))"

definition make_admin_keyboard :: keyboard where
  "make_admin_keyboard =
     kb_add (kb_add [] (CallbackButton broadcast_label (str ''admin_broadcast'')))
       (CallbackButton set_card_label (str ''admin_set_card''))"
section \<open>Updates, the environment and the calls to the platform\<close>

record message =
  msg_chat :: int
  msg_id :: int
  msg_from :: tg_user
  msg_text :: "ustring option"  \<comment> \<open>\<open>None\<close> for a message that is not a text message\<close>

record callback_query =
  cb_from :: tg_user
  cb_chat :: int
  cb_message_id :: int
  cb_data :: "ustring option"

datatype update = Message message | CallbackQuery callback_query

text \<open>
  What a handler reads from outside while it runs: the clock, and for the broadcast the
  outcome of the \<open>i\<close>-th \<open>send_message\<close> of the loop (\<open>Failed\<close> is any \<open>Exception\<close> the
  call raises). The calls to the platform a handler makes are returned as a list, in the
  order made. The other calls are taken to succeed, the source has no handler for their
  failure; \<open>asyncio.sleep\<close> is not modelled.
\<close>

datatype send_result = Delivered | Failed

record env =
  clock :: ustring
  outcome :: "nat \<Rightarrow> send_result"

datatype action =
    SendMessage int ustring "keyboard option" "string option" "int option"
      \<comment> \<open>chat, text, reply markup, parse mode, message replied to\<close>
  | SendFailed int ustring
      \<comment> \<open>a \<open>send_message\<close> of the broadcast that raised\<close>
  | EditMessageText int int ustring "keyboard option" "string option"
      \<comment> \<open>chat, message, text, reply markup, parse mode\<close>
  | AnswerCallback "ustring option" bool
      \<comment> \<open>text, \<open>show_alert\<close>\<close>
  | LogException int

datatype error = ValueError | KeyError ustring | TypeError | AttributeError | IndexError

text \<open>
  A handler returns the new state and the calls it made, or the exception it raised
  together with the calls made before.
\<close>

type_synonym result = "error \<times> action list + bot_state \<times> action list"

section \<open>The storage of the finite-state machine\<close>

definition set_state :: "int \<times> int \<Rightarrow> fsm_state \<Rightarrow> bot_state \<Rightarrow> bot_state" where
  "set_state key s st = st\<lparr>fsm := (fsm st)(key := (fsm st key)\<lparr>state := Some s\<rparr>)\<rparr>"

definition update_data :: "int \<times> int \<Rightarrow> string \<Rightarrow> ustring \<Rightarrow> bot_state \<Rightarrow> bot_state" where
  "update_data key k v st =
     st\<lparr>fsm := (fsm st)(key := (fsm st key)\<lparr>data := (data (fsm st key))(k \<mapsto> v)\<rparr>)\<rparr>"

definition get_data :: "int \<times> int \<Rightarrow> string \<Rightarrow> bot_state \<Rightarrow> ustring" where
  \<comment> \<open>\<open>data.get(k, '')\<close>\<close>
  "get_data key k st = or_empty (data (fsm st key) k)"

definition finish :: "int \<times> int \<Rightarrow> bot_state \<Rightarrow> bot_state" where
  \<comment> \<open>\<open>state.finish()\<close> resets the state and the data\<close>
  "finish key st = st\<lparr>fsm := (fsm st)(key := no_session)\<rparr>"

section \<open>The texts of the handlers\<close>

definition welcome_text :: ustring where
  \<comment> \<open>the four paragraphs \<open>cmd_start\<close> sends: "Welcome to the online EGE school ...",
      "Here you can buy access to video lessons, original exercises and worked problems
      from experienced teachers.", "Preparation is available ...", "Choose a subject and
      a programme ..."\<close>
  "welcome_text =
     [127891, 32, 1044, 1086, 1073, 1088, 1086, 32, 1087, 1086, 1078, 1072, 1083, 1086,
     1074, 1072, 1090, 1100, 32, 1074, 32, 42, 1045, 1043, 1069, 32, 1064, 1082, 1086, 1083,
     1091, 32, 1054, 1085, 1083, 1072, 1081, 1085, 42, 32, 8212, 32, 1073, 1099, 1089, 1090,
     1088, 1099, 1077, 32, 1080, 32, 1087, 1086, 1085, 1103, 1090, 1085, 1099, 1077, 32,
     1082, 1091, 1088, 1089, 1099, 32, 1076, 1083, 1103, 32, 1091, 1074, 1077, 1088, 1077,
     1085, 1085, 1086, 1081, 32, 1087, 1086, 1076, 1075, 1086, 1090, 1086, 1074, 1082, 1080,
     32, 1082, 32, 1101, 1082, 1079, 1072, 1084, 1077, 1085, 1072, 1084, 33, 10, 10, 1047,
     1076, 1077, 1089, 1100, 32, 1074, 1099, 32, 1084, 1086, 1078, 1077, 1090, 1077, 32,
     1082, 1091, 1087, 1080, 1090, 1100, 32, 1076, 1086, 1089, 1090, 1091, 1087, 32, 1082,
     32, 1074, 1080, 1076, 1077, 1086, 1091, 1088, 1086, 1082, 1072, 1084, 44, 32, 1072,
     1074, 1090, 1086, 1088, 1089, 1082, 1080, 1084, 32, 1079, 1072, 1076, 1072, 1085, 1080,
     1103, 1084, 32, 1080, 32, 1088, 1072, 1079, 1073, 1086, 1088, 1091, 32, 1079, 1072,
     1076, 1072, 1095, 32, 1086, 1090, 32, 1086, 1087, 1099, 1090, 1085, 1099, 1093, 32,
     1087, 1088, 1077, 1087, 1086, 1076, 1072, 1074, 1072, 1090, 1077, 1083, 1077, 1081, 46,
     10, 10, 128218, 32, 1044, 1086, 1089, 1090, 1091, 1087, 1085, 1072, 32, 1087, 1086,
     1076, 1075, 1086, 1090, 1086, 1074, 1082, 1072, 32, 1087, 1086, 32, 1087, 1088, 1086,
     1092, 1080, 1083, 1100, 1085, 1086, 1081, 32, 1080, 32, 1073, 1072, 1079, 1086, 1074,
     1086, 1081, 32, 1087, 1088, 1086, 1075, 1088, 1072, 1084, 1084, 1077, 44, 32, 1087,
     1077, 1088, 1089, 1086, 1085, 1072, 1083, 1100, 1085, 1099, 1077, 32, 1095, 1077, 1082,
     45, 1083, 1080, 1089, 1090, 1099, 32, 1080, 32, 1088, 1077, 1082, 1086, 1084, 1077,
     1085, 1076, 1072, 1094, 1080, 1080, 46, 10, 10, 1042, 1099, 1073, 1077, 1088, 1080,
     1090, 1077, 32, 1087, 1088, 1077, 1076, 1084, 1077, 1090, 32, 1080, 32, 1087, 1088,
     1086, 1075, 1088, 1072, 1084, 1084, 1091, 32, 8212, 32, 1087, 1086, 1083, 1091, 1095,
     1080, 1090, 1077, 32, 1075, 1086, 1090, 1086, 1074, 1091, 1102, 32, 1076, 1086, 1088,
     1086, 1078, 1085, 1091, 1102, 32, 1082, 1072, 1088, 1090, 1091, 32, 1087, 1086, 1076,
     1075, 1086, 1090, 1086, 1074, 1082, 1080, 32, 1080, 32, 1084, 1072, 1090, 1077, 1088,
     1080, 1072, 1083, 1099, 32, 1089, 1088, 1072, 1079, 1091, 32, 1087, 1086, 1089, 1083,
     1077, 32, 1086, 1087, 1083, 1072, 1090, 1099, 46]"

definition back_start_text :: ustring where
  \<comment> \<open>the text of \<open>back_start\<close>: the first paragraph, then
      "Here you can buy access to video lessons..." ending in three dots\<close>
  "back_start_text =
     [127891, 32, 1044, 1086, 1073, 1088, 1086, 32, 1087, 1086, 1078, 1072, 1083, 1086,
     1074, 1072, 1090, 1100, 32, 1074, 32, 42, 1045, 1043, 1069, 32, 1064, 1082, 1086, 1083,
     1091, 32, 1054, 1085, 1083, 1072, 1081, 1085, 42, 32, 8212, 32, 1073, 1099, 1089, 1090,
     1088, 1099, 1077, 32, 1080, 32, 1087, 1086, 1085, 1103, 1090, 1085, 1099, 1077, 32,
     1082, 1091, 1088, 1089, 1099, 32, 1076, 1083, 1103, 32, 1091, 1074, 1077, 1088, 1077,
     1085, 1085, 1086, 1081, 32, 1087, 1086, 1076, 1075, 1086, 1090, 1086, 1074, 1082, 1080,
     32, 1082, 32, 1101, 1082, 1079, 1072, 1084, 1077, 1085, 1072, 1084, 33, 10, 10, 1047,
     1076, 1077, 1089, 1100, 32, 1074, 1099, 32, 1084, 1086, 1078, 1077, 1090, 1077, 32,
     1082, 1091, 1087, 1080, 1090, 1100, 32, 1076, 1086, 1089, 1090, 1091, 1087, 32, 1082,
     32, 1074, 1080, 1076, 1077, 1086, 1091, 1088, 1086, 1082, 1072, 1084, 46, 46, 46]"

definition choose_subject_text :: ustring where
  \<comment> \<open>"Choose a subject:"\<close>
  "choose_subject_text =
     [1042, 1099, 1073, 1077, 1088, 1080, 1090, 1077, 32, 1087, 1088, 1077, 1076, 1084,
     1077, 1090, 58]"

definition subject_text :: "ustring \<Rightarrow> ustring" where
  \<comment> \<open>"Subject: *title*", newline, "Choose a programme:"\<close>
  "subject_text title =
     [1055, 1088, 1077, 1076, 1084, 1077, 1090, 58, 32, 42] @ title @
     [42, 10, 1042, 1099, 1073, 1077, 1088, 1080, 1090, 1077, 32, 1087, 1088, 1086, 1075,
     1088, 1072, 1084, 1084, 1091, 58]"

definition details_heading :: ustring where
  \<comment> \<open>the rouble sign after the price, an empty line, "*Payment details:*" and a newline\<close>
  "details_heading =
     [8381, 10, 10, 42, 1056, 1077, 1082, 1074, 1080, 1079, 1080, 1090, 1099, 32, 1076,
     1083, 1103, 32, 1086, 1087, 1083, 1072, 1090, 1099, 58, 42, 10]"

definition product_text :: "ustring \<Rightarrow> ustring \<Rightarrow> nat \<Rightarrow> ustring \<Rightarrow> ustring \<Rightarrow> ustring" where
  \<comment> \<open>the f-string of \<open>process_school\<close>: "*Product:* title - school", "*Price:* price" and
      the heading of the payment details, then the card and the name on a line each,
      "After paying please send the receipt to the manager @...", "We will send the access
      during working hours."\<close>
  "product_text subj_title school price card_number fio =
     [42, 1058, 1086, 1074, 1072, 1088, 58, 42, 32] @ subj_title @
     [32, 8212, 32] @ school @
     [10, 42, 1062, 1077, 1085, 1072, 58, 42, 32] @ str_nat price @ details_heading @ card_number @ [10] @ fio @
     [10, 10, 1055, 1086, 1089, 1083, 1077, 32, 1086, 1087, 1083, 1072, 1090, 1099, 32,
     1087, 1088, 1080, 1096, 1083, 1080, 1090, 1077, 44, 32, 1087, 1086, 1078, 1072, 1083,
     1091, 1081, 1089, 1090, 1072, 44, 32, 1095, 1077, 1082, 32, 1084, 1077, 1085, 1077,
     1076, 1078, 1077, 1088, 1091, 32, 64] @ MANAGER_USERNAME @
     [46, 10, 1052, 1099, 32, 1087, 1088, 1080, 1096, 1083, 1077, 1084, 32, 1076, 1086,
     1089, 1090, 1091, 1087, 32, 1074, 32, 1090, 1077, 1095, 1077, 1085, 1080, 1077, 32,
     1088, 1072, 1073, 1086, 1095, 1077, 1075, 1086, 32, 1074, 1088, 1077, 1084, 1077, 1085,
     1080, 46]"

definition contact_label :: ustring where
  \<comment> \<open>"Contact the manager"\<close>
  "contact_label =
     [1057, 1074, 1103, 1079, 1072, 1090, 1100, 1089, 1103, 32, 1089, 32, 1084, 1077, 1085,
     1077, 1076, 1078, 1077, 1088, 1086, 1084]"

definition back_to_subjects_label :: ustring where
  \<comment> \<open>"Back to the subjects"\<close>
  "back_to_subjects_label =
     [11013, 65039, 32, 1053, 1072, 1079, 1072, 1076, 32, 1082, 32, 1087, 1088, 1077, 1076,
     1084, 1077, 1090, 1072, 1084]"

definition access_denied_text :: ustring where
  \<comment> \<open>"Access denied."\<close>
  "access_denied_text =
     [1044, 1086, 1089, 1090, 1091, 1087, 32, 1079, 1072, 1087, 1088, 1077, 1097, 1105,
     1085, 46]"

definition admin_panel_text :: ustring where
  \<comment> \<open>"Administrator's panel:"\<close>
  "admin_panel_text =
     [1055, 1072, 1085, 1077, 1083, 1100, 32, 1072, 1076, 1084, 1080, 1085, 1080, 1089,
     1090, 1088, 1072, 1090, 1086, 1088, 1072, 58]"

definition no_access_alert :: ustring where
  \<comment> \<open>"No access"\<close>
  "no_access_alert =
     [1053, 1077, 1090, 32, 1076, 1086, 1089, 1090, 1091, 1087, 1072]"

definition no_access_text :: ustring where
  \<comment> \<open>"No access."\<close>
  "no_access_text =
     [1053, 1077, 1090, 32, 1076, 1086, 1089, 1090, 1091, 1087, 1072, 46]"

definition broadcast_prompt :: ustring where
  \<comment> \<open>"Send the text of the broadcast (4000 characters at most)."\<close>
  "broadcast_prompt =
     [1054, 1090, 1087, 1088, 1072, 1074, 1100, 1090, 1077, 32, 1090, 1077, 1082, 1089,
     1090, 32, 1076, 1083, 1103, 32, 1088, 1072, 1089, 1089, 1099, 1083, 1082, 1080, 32, 40,
     1084, 1072, 1082, 1089, 32, 52, 48, 48, 48, 32, 1089, 1080, 1084, 1074, 1086, 1083,
     1086, 1074, 41, 46]"

definition start_broadcast_label :: ustring where
  \<comment> \<open>"Start the broadcast"\<close>
  "start_broadcast_label =
     [9989, 32, 1053, 1072, 1095, 1072, 1090, 1100, 32, 1088, 1072, 1089, 1089, 1099, 1083,
     1082, 1091]"

definition cancel_label :: ustring where
  \<comment> \<open>"Cancel"\<close>
  "cancel_label =
     [10060, 32, 1054, 1090, 1084, 1077, 1085, 1072]"

definition preview_text :: ustring where
  \<comment> \<open>"Preview of the broadcast:" and two newlines\<close>
  "preview_text =
     [1055, 1088, 1077, 1076, 1087, 1088, 1086, 1089, 1084, 1086, 1090, 1088, 32, 1088,
     1072, 1089, 1089, 1099, 1083, 1082, 1080, 58, 10, 10]"

definition broadcast_cancelled_text :: ustring where
  \<comment> \<open>"Broadcast cancelled"\<close>
  "broadcast_cancelled_text =
     [1056, 1072, 1089, 1089, 1099, 1083, 1082, 1072, 32, 1086, 1090, 1084, 1077, 1085,
     1077, 1085, 1072]"

definition cancelled_text :: ustring where
  \<comment> \<open>"Cancelled."\<close>
  "cancelled_text =
     [1054, 1090, 1084, 1077, 1085, 1077, 1085, 1086, 46]"

definition broadcast_starting_text :: ustring where
  \<comment> \<open>"Starting the broadcast..."\<close>
  "broadcast_starting_text =
     [1047, 1072, 1087, 1091, 1089, 1082, 32, 1088, 1072, 1089, 1089, 1099, 1083, 1082,
     1080, 46, 46, 46]"

definition report_sent_label :: ustring where
  \<comment> \<open>"Done. Sent: "\<close>
  "report_sent_label =
     [1043, 1086, 1090, 1086, 1074, 1086, 46, 32, 1054, 1090, 1087, 1088, 1072, 1074, 1083,
     1077, 1085, 1086, 58, 32]"

definition report_failed_label :: ustring where
  \<comment> \<open>". Not delivered: "\<close>
  "report_failed_label =
     [46, 32, 1053, 1077, 32, 1076, 1086, 1089, 1090, 1072, 1074, 1083, 1077, 1085, 1086,
     58, 32]"

definition report_text :: "nat \<Rightarrow> nat \<Rightarrow> ustring" where
  \<comment> \<open>the f-string of the report: "Done. Sent: {sent}. Not delivered: {failed}."\<close>
  "report_text sent failed =
     report_sent_label @ str_nat sent @ report_failed_label @ str_nat failed @ str ''.''"

definition card_prompt :: ustring where
  \<comment> \<open>"Enter the card number (or the payment details) - send it as one message:"\<close>
  "card_prompt =
     [1042, 1074, 1077, 1076, 1080, 1090, 1077, 32, 1085, 1086, 1084, 1077, 1088, 32, 1082,
     1072, 1088, 1090, 1099, 32, 40, 1080, 1083, 1080, 32, 1088, 1077, 1082, 1074, 1080,
     1079, 1080, 1090, 1099, 41, 32, 8212, 32, 1086, 1090, 1087, 1088, 1072, 1074, 1100,
     1090, 1077, 32, 1086, 1076, 1085, 1080, 1084, 32, 1089, 1086, 1086, 1073, 1097, 1077,
     1085, 1080, 1077, 1084, 58]"

definition fio_prompt :: ustring where
  \<comment> \<open>"Now give the full name of the recipient:"\<close>
  "fio_prompt =
     [1058, 1077, 1087, 1077, 1088, 1100, 32, 1091, 1082, 1072, 1078, 1080, 1090, 1077, 32,
     1060, 1048, 1054, 32, 1087, 1086, 1083, 1091, 1095, 1072, 1090, 1077, 1083, 1103, 58]"

definition details_updated_text :: "ustring \<Rightarrow> ustring \<Rightarrow> ustring" where
  \<comment> \<open>"Payment details updated:", the card, the name\<close>
  "details_updated_text card_number fio =
     [1056, 1077, 1082, 1074, 1080, 1079, 1080, 1090, 1099, 32, 1086, 1073, 1085, 1086,
     1074, 1083, 1077, 1085, 1099, 58, 10] @ card_number @ [10] @ fio"

definition fallback_text :: ustring where
  \<comment> \<open>"Command not recognised. Press /start to return to the beginning."\<close>
  "fallback_text =
     [1050, 1086, 1084, 1072, 1085, 1076, 1072, 32, 1085, 1077, 32, 1088, 1072, 1089, 1087,
     1086, 1079, 1085, 1072, 1085, 1072, 46, 32, 1053, 1072, 1078, 1084, 1080, 1090, 1077,
     32, 47, 115, 116, 97, 114, 116, 32, 1095, 1090, 1086, 1073, 1099, 32, 1074, 1077, 1088,
     1085, 1091, 1090, 1100, 1089, 1103, 32, 1074, 32, 1085, 1072, 1095, 1072, 1083, 1086,
     46]"

section \<open>Handlers\<close>

definition reply :: "message \<Rightarrow> ustring \<Rightarrow> keyboard option \<Rightarrow> action" where
  \<comment> \<open>\<open>message.reply(text, reply_markup=...)\<close>\<close>
  "reply m text kb = SendMessage (msg_chat m) text kb None (Some (msg_id m))"

definition edit_message_text ::
  "callback_query \<Rightarrow> ustring \<Rightarrow> keyboard \<Rightarrow> string option \<Rightarrow> action" where
  "edit_message_text cb text kb parse_mode =
     EditMessageText (cb_chat cb) (cb_message_id cb) text (Some kb) parse_mode"

definition cmd_start :: "env \<Rightarrow> message \<Rightarrow> bot_state \<Rightarrow> result" where
  "cmd_start e m st =
     Inr (db_add_user (msg_from m) (clock e) st,
          [SendMessage (msg_chat m) welcome_text (Some make_start_keyboard) (Some ''Markdown'')
             None])"

definition process_buy :: "callback_query \<Rightarrow> bot_state \<Rightarrow> result" where
  "process_buy cb st =
     Inr (st, [AnswerCallback None False,
               edit_message_text cb choose_subject_text make_subjects_keyboard None])"

definition process_subject :: "callback_query \<Rightarrow> bot_state \<Rightarrow> result" where
  "process_subject cb st =
     (case cb_data cb of
        None \<Rightarrow> Inl (AttributeError, [AnswerCallback None False])
      | Some d \<Rightarrow>
          (case py_split 124 1 d of
             [_, subj_key] \<Rightarrow>
               (case map_of SUBJECTS subj_key of
                  None \<Rightarrow> Inl (KeyError subj_key, [AnswerCallback None False])
                | Some (title, price) \<Rightarrow>
                    Inr (st, [AnswerCallback None False,
                              edit_message_text cb (subject_text title)
                                (make_schools_keyboard subj_key) (Some ''Markdown'')]))
           | _ \<Rightarrow> Inl (ValueError, [AnswerCallback None False])))"

definition product_keyboard :: keyboard where
  \<comment> \<open>the keyboard \<open>process_school\<close> builds: a link to the manager, and "back to the subjects"\<close>
  "product_keyboard =
     kb_add
       (kb_add [] (UrlButton contact_label (str ''https://t.me/'' @ MANAGER_USERNAME)))
       (CallbackButton back_to_subjects_label (str ''back_subjects''))"

definition process_school :: "callback_query \<Rightarrow> bot_state \<Rightarrow> result" where
  "process_school cb st =
     (case cb_data cb of
        None \<Rightarrow> Inl (AttributeError, [AnswerCallback None False])
      | Some d \<Rightarrow>
          (case py_split 124 2 d of
             [_, subj_key, school] \<Rightarrow>
               (case map_of SUBJECTS subj_key of
                  None \<Rightarrow> Inl (KeyError subj_key, [AnswerCallback None False])
                | Some (subj_title, price) \<Rightarrow>
                    (let card_number = db_get_setting st (str ''card_number'');
                         fio = db_get_setting st (str ''recipient_fio'');
                         text = product_text subj_title school price card_number fio;
                         kb = product_keyboard
                     in Inr (st, [AnswerCallback None False,
                                  edit_message_text cb text kb (Some ''Markdown'')])))
           | _ \<Rightarrow> Inl (ValueError, [AnswerCallback None False])))"

definition back_subjects :: "callback_query \<Rightarrow> bot_state \<Rightarrow> result" where
  "back_subjects cb st =
     Inr (st, [AnswerCallback None False,
               edit_message_text cb choose_subject_text make_subjects_keyboard None])"

definition back_start :: "callback_query \<Rightarrow> bot_state \<Rightarrow> result" where
  "back_start cb st =
     Inr (st, [AnswerCallback None False,
               edit_message_text cb back_start_text make_start_keyboard (Some ''Markdown'')])"

subsection \<open>The administrator's handlers\<close>

definition cmd_admin :: "config \<Rightarrow> message \<Rightarrow> bot_state \<Rightarrow> result" where
  "cmd_admin cfg m st =
     (if user_id (msg_from m) \<noteq> ADMIN_ID cfg then Inr (st, [reply m access_denied_text None])
      else Inr (st, [reply m admin_panel_text (Some make_admin_keyboard)]))"

definition admin_broadcast :: "config \<Rightarrow> callback_query \<Rightarrow> bot_state \<Rightarrow> result" where
  "admin_broadcast cfg cb st =
     (if user_id (cb_from cb) \<noteq> ADMIN_ID cfg
      then Inr (st, [AnswerCallback (Some no_access_alert) True])
      else Inr (set_state (cb_chat cb, user_id (cb_from cb)) waiting_broadcast_text st,
                [AnswerCallback None False,
                 SendMessage (ADMIN_ID cfg) broadcast_prompt None None None]))"

definition receive_broadcast_text :: "config \<Rightarrow> message \<Rightarrow> bot_state \<Rightarrow> result" where
  "receive_broadcast_text cfg m st =
     (if user_id (msg_from m) \<noteq> ADMIN_ID cfg then Inr (st, [reply m no_access_text None])
      else case msg_text m of
        None \<Rightarrow> Inl (TypeError, [])
      | Some t \<Rightarrow>
          (let key = (msg_chat m, user_id (msg_from m));
               text = take 4000 t;
               st1 = update_data key ''broadcast_text'' text st;
               kb = kb_add
                      (kb_add []
                         (CallbackButton start_broadcast_label (str ''broadcast_confirm'')))
                      (CallbackButton cancel_label (str ''broadcast_cancel''))
           in Inr (set_state key waiting_broadcast_confirm st1,
                   [reply m (preview_text @ text) (Some kb)])))"

text \<open>
  The loop of the broadcast, over the list of user identities: \<open>i\<close> is the position in
  the list, \<open>sent\<close> and \<open>failed\<close> are the two counters, \<open>log\<close> the calls made so far.
\<close>

fun broadcast_loop ::
  "(nat \<Rightarrow> send_result) \<Rightarrow> ustring \<Rightarrow> nat \<Rightarrow> int list \<Rightarrow> nat \<times> nat \<times> action list
     \<Rightarrow> nat \<times> nat \<times> action list" where
  "broadcast_loop out text i [] (sent, failed, log) = (sent, failed, log)"
| "broadcast_loop out text i (uid # uids) (sent, failed, log) =
     (case out i of
        Delivered \<Rightarrow>
          broadcast_loop out text (Suc i) uids
            (sent + 1, failed, log @ [SendMessage uid text None None None])
      | Failed \<Rightarrow>
          broadcast_loop out text (Suc i) uids
            (sent, failed + 1, log @ [SendFailed uid text, LogException uid]))"

definition broadcast_confirm_or_cancel ::
  "config \<Rightarrow> env \<Rightarrow> callback_query \<Rightarrow> bot_state \<Rightarrow> result" where
  "broadcast_confirm_or_cancel cfg e cb st =
     (let key = (cb_chat cb, user_id (cb_from cb)) in
      if user_id (cb_from cb) \<noteq> ADMIN_ID cfg
      then Inr (st, [AnswerCallback (Some no_access_alert) True])
      else if cb_data cb = Some (str ''broadcast_cancel'')
      then Inr (finish key st,
                [AnswerCallback (Some broadcast_cancelled_text) False,
                 SendMessage (ADMIN_ID cfg) cancelled_text None None None])
      else
        (let text = get_data key ''broadcast_text'' st;
             user_ids = db_get_all_user_ids st;
             (sent, failed, log) =
               broadcast_loop (outcome e) text 0 user_ids
                 (0, 0, [AnswerCallback (Some broadcast_starting_text) False])
         in Inr (finish key st,
                 log @ [SendMessage (ADMIN_ID cfg) (report_text sent failed) None None None])))"

definition admin_set_card :: "config \<Rightarrow> callback_query \<Rightarrow> bot_state \<Rightarrow> result" where
  "admin_set_card cfg cb st =
     (if user_id (cb_from cb) \<noteq> ADMIN_ID cfg
      then Inr (st, [AnswerCallback (Some no_access_alert) True])
      else Inr (set_state (cb_chat cb, user_id (cb_from cb)) waiting_card_number st,
                [AnswerCallback None False,
                 SendMessage (ADMIN_ID cfg) card_prompt None None None]))"

definition receive_card_number :: "config \<Rightarrow> message \<Rightarrow> bot_state \<Rightarrow> result" where
  "receive_card_number cfg m st =
     (if user_id (msg_from m) \<noteq> ADMIN_ID cfg then Inr (st, [reply m no_access_text None])
      else case msg_text m of
        None \<Rightarrow> Inl (AttributeError, [])
      | Some t \<Rightarrow>
          (let key = (msg_chat m, user_id (msg_from m));
               card_number = strip t;
               st1 = update_data key ''card_number'' card_number st
           in Inr (set_state key waiting_recipient_fio st1, [reply m fio_prompt None])))"

definition receive_recipient_fio :: "config \<Rightarrow> message \<Rightarrow> bot_state \<Rightarrow> result" where
  "receive_recipient_fio cfg m st =
     (if user_id (msg_from m) \<noteq> ADMIN_ID cfg then Inr (st, [reply m no_access_text None])
      else case msg_text m of
        None \<Rightarrow> Inl (AttributeError, [])
      | Some t \<Rightarrow>
          (let key = (msg_chat m, user_id (msg_from m));
               fio = strip t;
               card_number = get_data key ''card_number'' st;
               st1 = db_set_setting (str ''card_number'') card_number st;
               st2 = db_set_setting (str ''recipient_fio'') fio st1
           in Inr (finish key st2, [reply m (details_updated_text card_number fio) None])))"

definition catch_all :: "message \<Rightarrow> bot_state \<Rightarrow> result" where
  "catch_all m st =
     (case msg_text m of
        None \<Rightarrow> Inr (st, [reply m fallback_text None])
      | Some t \<Rightarrow>
          (if t \<noteq> [] \<and> startswith t (str ''/'') then Inr (st, [])
           else Inr (st, [reply m fallback_text None])))"

section \<open>The dispatcher\<close>

text \<open>
  The decorators of \<open>main.py\<close> register the handlers with aiogram's dispatcher, which
  gives an update to the first handler, in the order of registration, all of whose
  filters pass. A handler registered without \<open>state\<close> passes only when the sender has no
  state in the chat; one registered without \<open>content_types\<close> takes text messages only.

  The filter \<open>commands=[c]\<close> takes the first word of the text, wants the prefix \<open>/\<close>,
  compares the part before an \<open>@\<close> with \<open>c\<close> ignoring case, and wants a mention after
  the \<open>@\<close>, when there is one, to be the bot's user name. A text without a word makes the
  filter raise.
\<close>

definition command_filter :: "config \<Rightarrow> string \<Rightarrow> ustring \<Rightarrow> error + bool" where
  "command_filter cfg cmd text =
     (if text = [] then Inr False
      else case first_word text of
        None \<Rightarrow> Inl IndexError
      | Some full_command \<Rightarrow>
          (let prefix = take 1 full_command;
               (command, mention) = py_partition 64 (drop 1 full_command)
           in Inr (\<not> (mention \<noteq> [] \<and> lower (bot_username cfg) \<noteq> lower mention) \<and>
                   prefix = str ''/'' \<and> lower command = str cmd)))"

definition handles_command ::
  "config \<Rightarrow> string \<Rightarrow> fsm_state option \<Rightarrow> message \<Rightarrow> error + bool" where
  "handles_command cfg cmd s m =
     (if s \<noteq> None then Inr False
      else case msg_text m of None \<Rightarrow> Inr False | Some t \<Rightarrow> command_filter cfg cmd t)"

definition dispatch_message :: "config \<Rightarrow> env \<Rightarrow> message \<Rightarrow> bot_state \<Rightarrow> result" where
  "dispatch_message cfg e m st =
     (let s = state (fsm st (msg_chat m, user_id (msg_from m)));
          is_text = (msg_text m \<noteq> None)
      in case handles_command cfg ''start'' s m of
           Inl err \<Rightarrow> Inl (err, [])
         | Inr True \<Rightarrow> cmd_start e m st
         | Inr False \<Rightarrow>
             (case handles_command cfg ''admin'' s m of
                Inl err \<Rightarrow> Inl (err, [])
              | Inr True \<Rightarrow> cmd_admin cfg m st
              | Inr False \<Rightarrow>
                  if s = Some waiting_broadcast_text \<and> is_text
                  then receive_broadcast_text cfg m st
                  else if s = Some waiting_card_number \<and> is_text
                  then receive_card_number cfg m st
                  else if s = Some waiting_recipient_fio \<and> is_text
                  then receive_recipient_fio cfg m st
                  else if s = None then catch_all m st
                  else Inr (st, [])))"

definition data_startswith :: "ustring option \<Rightarrow> ustring \<Rightarrow> bool" where
  \<comment> \<open>\<open>c.data and c.data.startswith(p)\<close>\<close>
  "data_startswith d p = (case d of None \<Rightarrow> False | Some x \<Rightarrow> x \<noteq> [] \<and> startswith x p)"

definition dispatch_callback :: "config \<Rightarrow> env \<Rightarrow> callback_query \<Rightarrow> bot_state \<Rightarrow> result" where
  "dispatch_callback cfg e cb st =
     (let s = state (fsm st (cb_chat cb, user_id (cb_from cb)));
          d = cb_data cb
      in if s = None \<and> d = Some (str ''buy'') then process_buy cb st
         else if s = None \<and> data_startswith d (str ''subj|'') then process_subject cb st
         else if s = None \<and> data_startswith d (str ''school|'') then process_school cb st
         else if s = None \<and> d = Some (str ''back_subjects'') then back_subjects cb st
         else if s = None \<and> d = Some (str ''back_start'') then back_start cb st
         else if s = None \<and> d = Some (str ''admin_broadcast'') then admin_broadcast cfg cb st
         else if s = Some waiting_broadcast_confirm \<and>
                 (d = Some (str ''broadcast_cancel'') \<or> d = Some (str ''broadcast_confirm''))
         then broadcast_confirm_or_cancel cfg e cb st
         else if s = None \<and> d = Some (str ''admin_set_card'') then admin_set_card cfg cb st
         else Inr (st, []))"

definition dispatch :: "config \<Rightarrow> env \<Rightarrow> update \<Rightarrow> bot_state \<Rightarrow> result" where
  "dispatch cfg e upd st =
     (case upd of
        Message m \<Rightarrow> dispatch_message cfg e m st
      | CallbackQuery cb \<Rightarrow> dispatch_callback cfg e cb st)"

section \<open>Runs of the bot\<close>

definition empty_store :: bot_state where
  "empty_store = \<lparr>users = [], settings = Map.empty, fsm = (\<lambda>_. no_session)\<rparr>"

definition restart :: "bot_state \<Rightarrow> bot_state" where
  \<comment> \<open>a new process: the memory storage starts empty, \<open>init_db\<close> runs on the tables kept in
      \<open>data.db\<close>\<close>
  "restart st = init_db (st\<lparr>fsm := (\<lambda>_. no_session)\<rparr>)"

definition state_after :: "result \<Rightarrow> bot_state \<Rightarrow> bot_state" where
  \<comment> \<open>the state an update leaves; no handler that raises has changed the state before\<close>
  "state_after r st = (case r of Inl _ \<Rightarrow> st | Inr (st', _) \<Rightarrow> st')"

inductive reachable :: "config \<Rightarrow> bot_state \<Rightarrow> bool" for cfg :: config where
  first_start: "reachable cfg (restart empty_store)"
| next_update: "reachable cfg st \<Longrightarrow> reachable cfg (state_after (dispatch cfg e upd st) st)"
| next_start: "reachable cfg st \<Longrightarrow> reachable cfg (restart st)"

fun run :: "config \<Rightarrow> (env \<times> update) list \<Rightarrow> bot_state \<Rightarrow> bot_state" where
  "run cfg [] st = st"
| "run cfg ((e, upd) # rest) st = run cfg rest (state_after (dispatch cfg e upd st) st)"

section \<open>Notions used to state the properties\<close>

definition actions_of :: "result \<Rightarrow> action list" where
  \<comment> \<open>the calls made while the update was handled\<close>
  "actions_of r = (case r of Inl (_, acts) \<Rightarrow> acts | Inr (_, acts) \<Rightarrow> acts)"

definition recipient :: "action \<Rightarrow> int option" where
  \<comment> \<open>the chat a \<open>send_message\<close> was addressed to, delivered or not\<close>
  "recipient a =
     (case a of
        SendMessage uid _ _ _ _ \<Rightarrow> Some uid
      | SendFailed uid _ \<Rightarrow> Some uid
      | _ \<Rightarrow> None)"

definition recipients :: "action list \<Rightarrow> int list" where
  "recipients log = List.map_filter recipient log"

definition count_outcome :: "(nat \<Rightarrow> send_result) \<Rightarrow> send_result \<Rightarrow> nat \<Rightarrow> nat \<Rightarrow> nat" where
  \<comment> \<open>how many of the \<open>n\<close> sends from position \<open>i\<close> on have the outcome \<open>r\<close>\<close>
  "count_outcome out r i n = length (filter (\<lambda>k. out k = r) [i..<i + n])"

definition sender :: "update \<Rightarrow> int" where
  \<comment> \<open>the identity of the user an update comes from\<close>
  "sender upd =
     (case upd of Message m \<Rightarrow> user_id (msg_from m) | CallbackQuery cb \<Rightarrow> user_id (cb_from cb))"

definition from_others :: "config \<Rightarrow> (env \<times> update) list \<Rightarrow> bool" where
  \<comment> \<open>none of the updates comes from the administrator\<close>
  "from_others cfg evs = list_all (\<lambda>(e, upd). sender upd \<noteq> ADMIN_ID cfg) evs"

definition slash_text :: "message \<Rightarrow> bool" where
  \<comment> \<open>the message is a text that begins with a slash\<close>
  "slash_text m =
     (case msg_text m of None \<Rightarrow> False | Some t \<Rightarrow> t \<noteq> [] \<and> startswith t (str ''/''))"

subsection \<open>Concrete inputs\<close>

definition example_config :: config where
  "example_config = \<lparr>ADMIN_ID = 1000, bot_username = str ''ege_school_bot''\<rparr>"

definition tg :: "int \<Rightarrow> tg_user" where
  "tg uid = \<lparr>user_id = uid, username = None, first_name = None, last_name = None\<rparr>"

definition text_message :: "int \<Rightarrow> ustring \<Rightarrow> message" where
  \<comment> \<open>a text message in the private chat of the user, whose identity is the chat's\<close>
  "text_message uid t = \<lparr>msg_chat = uid, msg_id = 1, msg_from = tg uid, msg_text = Some t\<rparr>"

definition button_press :: "int \<Rightarrow> ustring \<Rightarrow> callback_query" where
  "button_press uid d =
     \<lparr>cb_from = tg uid, cb_chat = uid, cb_message_id = 1, cb_data = Some d\<rparr>"

definition all_delivered :: env where
  "all_delivered = \<lparr>clock = str ''2024-01-01T00:00:00'', outcome = (\<lambda>_. Delivered)\<rparr>"

definition third_fails :: env where
  "third_fails =
     \<lparr>clock = str ''2024-01-01T00:00:00'',
      outcome = (\<lambda>i. if i = 2 then Failed else Delivered)\<rparr>"

definition started :: bot_state where
  \<comment> \<open>the bot after its first start\<close>
  "started = restart empty_store"

definition start_from :: "int \<Rightarrow> env \<times> update" where
  \<comment> \<open>the user sends \<open>/start\<close>\<close>
  "start_from uid = (all_delivered, Message (text_message uid (str ''/start'')))"

definition five_users :: bot_state where
  "five_users =
     run example_config [start_from 1, start_from 2, start_from 3, start_from 4, start_from 5]
       started"

definition text_pending :: bot_state where
  \<comment> \<open>five users registered; the administrator has pressed "broadcast"\<close>
  "text_pending =
     run example_config
       [(all_delivered, CallbackQuery (button_press 1000 (str ''admin_broadcast'')))]
       five_users"

definition long_message :: message where
  \<comment> \<open>4001 times the letter a\<close>
  "long_message = text_message 1000 (replicate 4001 97)"

definition confirm_pending :: bot_state where
  \<comment> \<open>five users registered; the administrator has pressed "broadcast" and sent "Hello"\<close>
  "confirm_pending =
     run example_config [(all_delivered, Message (text_message 1000 (str ''Hello'')))]
       text_pending"

definition confirm_press :: callback_query where
  "confirm_press = button_press 1000 (str ''broadcast_confirm'')"

definition card_pending :: bot_state where
  \<comment> \<open>five users registered; the administrator has pressed "set the card number"\<close>
  "card_pending =
     run example_config
       [(all_delivered, CallbackQuery (button_press 1000 (str ''admin_set_card'')))]
       five_users"

definition pifagor :: ustring where
  \<comment> \<open>the second entry of \<open>SCHOOLS\<close>\<close>
  "pifagor =
     [1087, 1080, 1092, 1072, 1075, 1086, 1088]"

definition navigation :: "(env \<times> update) list" where
  \<comment> \<open>user 1 presses "buy", selects a subject, selects a programme, and goes back\<close>
  "navigation =
     [(all_delivered, CallbackQuery (button_press 1 (str ''buy''))),
      (all_delivered, CallbackQuery (button_press 1 (str ''subj|math_p''))),
      (all_delivered, CallbackQuery (button_press 1 (str ''school|math_p|'' @ pifagor))),
      (all_delivered, CallbackQuery (button_press 1 (str ''back_subjects'')))]"

definition card_message :: message where
  \<comment> \<open>the card number of the scenario, with blanks around it\<close>
  "card_message = text_message 1000 (str '' 4000 1234 '')"

definition fio_message :: message where
  "fio_message = text_message 1000 (str ''Ivan Petrov '')"

definition traffic_between :: "(env \<times> update) list" where
  \<comment> \<open>a sixth user registers while the administrator is typing\<close>
  "traffic_between = [start_from 6]"

definition traffic_after :: "(env \<times> update) list" where
  \<comment> \<open>user 2 opens the list of subjects, a seventh user registers\<close>
  "traffic_after = [(all_delivered, CallbackQuery (button_press 2 (str ''buy''))), start_from 7]"

definition details_set :: bot_state where
  "details_set =
     run example_config
       ((all_delivered, Message card_message) # traffic_between @
        [(all_delivered, Message fio_message)])
       card_pending"

definition later_state :: bot_state where
  "later_state = run example_config traffic_after details_set"

definition product_press :: callback_query where
  "product_press = button_press 1 (str ''school|'' @ fst (hd SUBJECTS) @ str ''|'' @ pifagor)"

section \<open>Auxiliary facts\<close>

lemma if_cases: "(c \<Longrightarrow> P a) \<Longrightarrow> (\<not> c \<Longrightarrow> P b) \<Longrightarrow> P (if c then a else b)"
  by simp

lemma sum_bool_cases:
  fixes x :: "'e + bool"
  obtains (Raised) err where "x = Inl err" | (Yes) "x = Inr True" | (No) "x = Inr False"
  by (cases x) auto

lemma state_after_simps [simp]:
  "state_after (Inr (st, acts)) st' = st"
  "state_after (Inl x) st' = st'"
  by (simp_all add: state_after_def)

lemmas state_defs =
  set_state_def update_data_def finish_def db_set_setting_def db_add_user_def

subsection \<open>The loop of the broadcast\<close>

lemma count_outcome_Suc:
  "count_outcome out r i (Suc n) = (if out i = r then 1 else 0) + count_outcome out r (Suc i) n"
  by (simp add: count_outcome_def upt_conv_Cons del: upt_Suc)

lemma count_outcome_total:
  "count_outcome out Delivered i n + count_outcome out Failed i n = n"
proof (induction n arbitrary: i)
  case 0 show ?case by (simp add: count_outcome_def)
next
  case (Suc n)
  show ?case using Suc [of "Suc i"] by (cases "out i") (simp_all add: count_outcome_Suc)
qed

lemma broadcast_loop_result:
  "\<exists>acts. broadcast_loop out text i uids (sent, failed, log) =
       (sent + count_outcome out Delivered i (length uids),
        failed + count_outcome out Failed i (length uids), log @ acts) \<and>
     recipients acts = uids"
proof (induction uids arbitrary: i sent failed log)
  case Nil
  show ?case by (simp add: count_outcome_def recipients_def map_filter_def)
next
  case (Cons uid uids)
  show ?case
  proof (cases "out i")
    case Delivered
    from Cons [of "Suc i" "sent + 1" failed "log @ [SendMessage uid text None None None]"]
    obtain acts where "broadcast_loop out text (Suc i) uids (sent + 1, failed, log @ [SendMessage uid text None None None]) =
       (sent + 1 + count_outcome out Delivered (Suc i) (length uids),
        failed + count_outcome out Failed (Suc i) (length uids), (log @ [SendMessage uid text None None None]) @ acts)" "recipients acts = uids" by blast
    then show ?thesis using Delivered
      by (intro exI [of _ "SendMessage uid text None None None # acts"])
         (simp add: count_outcome_Suc recipients_def map_filter_def recipient_def)
  next
    case Failed
    from Cons [of "Suc i" sent "failed + 1" "log @ [SendFailed uid text, LogException uid]"]
    obtain acts where "broadcast_loop out text (Suc i) uids (sent, failed + 1, log @ [SendFailed uid text, LogException uid]) =
       (sent + count_outcome out Delivered (Suc i) (length uids),
        failed + 1 + count_outcome out Failed (Suc i) (length uids), (log @ [SendFailed uid text, LogException uid]) @ acts)" "recipients acts = uids" by blast
    then show ?thesis using Failed
      by (intro exI [of _ "SendFailed uid text # LogException uid # acts"])
         (simp add: count_outcome_Suc recipients_def map_filter_def recipient_def)
  qed
qed


lemma confirm_result:
  assumes "user_id (cb_from cb) = ADMIN_ID cfg"
    and "cb_data cb \<noteq> Some (str ''broadcast_cancel'')"
  shows "\<exists>acts. broadcast_confirm_or_cancel cfg e cb st =
      Inr (finish (cb_chat cb, ADMIN_ID cfg) st,
           AnswerCallback (Some broadcast_starting_text) False # acts @
           [SendMessage (ADMIN_ID cfg)
              (report_text
                 (count_outcome (outcome e) Delivered 0 (length (db_get_all_user_ids st)))
                 (count_outcome (outcome e) Failed 0 (length (db_get_all_user_ids st))))
              None None None]) \<and>
      recipients acts = db_get_all_user_ids st"
proof -
  obtain acts where
    loop: "broadcast_loop (outcome e) (get_data (cb_chat cb, ADMIN_ID cfg) ''broadcast_text'' st) 0
        (db_get_all_user_ids st) (0, 0, [AnswerCallback (Some broadcast_starting_text) False]) =
      (0 + count_outcome (outcome e) Delivered 0 (length (db_get_all_user_ids st)),
       0 + count_outcome (outcome e) Failed 0 (length (db_get_all_user_ids st)),
       [AnswerCallback (Some broadcast_starting_text) False] @ acts)"
    and rcp: "recipients acts = db_get_all_user_ids st"
    using broadcast_loop_result by blast
  show ?thesis
    using assms rcp by (intro exI [of _ acts]) (simp add: broadcast_confirm_or_cancel_def loop)
qed

lemma dispatch_text_in_state:
  assumes "msg_text m = Some t"
    and "state (fsm st (msg_chat m, user_id (msg_from m))) = Some s"
  shows "dispatch cfg e (Message m) st =
     (if s = waiting_broadcast_text then receive_broadcast_text cfg m st
      else if s = waiting_card_number then receive_card_number cfg m st
      else if s = waiting_recipient_fio then receive_recipient_fio cfg m st
      else Inr (st, []))"
  using assms by (simp add: dispatch_def dispatch_message_def handles_command_def)

subsection \<open>What the handlers leave alone\<close>

lemma fsm_handlers:
  "fsm (state_after (cmd_start e m st) st) (c, uid) = fsm st (c, uid)"
  "fsm (state_after (catch_all m st) st) (c, uid) = fsm st (c, uid)"
  "fsm (state_after (process_buy cb st) st) (c, uid) = fsm st (c, uid)"
  "fsm (state_after (process_subject cb st) st) (c, uid) = fsm st (c, uid)"
  "fsm (state_after (process_school cb st) st) (c, uid) = fsm st (c, uid)"
  "fsm (state_after (back_subjects cb st) st) (c, uid) = fsm st (c, uid)"
  "fsm (state_after (back_start cb st) st) (c, uid) = fsm st (c, uid)"
  by (simp_all add: cmd_start_def db_add_user_def catch_all_def process_buy_def
      process_subject_def process_school_def back_subjects_def back_start_def state_after_def
      Let_def split: option.split list.split sum.split)

lemma fsm_admin_handlers:
  assumes "uid \<noteq> ADMIN_ID cfg"
  shows "fsm (state_after (cmd_admin cfg m st) st) (c, uid) = fsm st (c, uid)"
    and "fsm (state_after (receive_broadcast_text cfg m st) st) (c, uid) = fsm st (c, uid)"
    and "fsm (state_after (receive_card_number cfg m st) st) (c, uid) = fsm st (c, uid)"
    and "fsm (state_after (receive_recipient_fio cfg m st) st) (c, uid) = fsm st (c, uid)"
    and "fsm (state_after (admin_broadcast cfg cb st) st) (c, uid) = fsm st (c, uid)"
    and "fsm (state_after (admin_set_card cfg cb st) st) (c, uid) = fsm st (c, uid)"
    and "fsm (state_after (broadcast_confirm_or_cancel cfg e cb st) st) (c, uid) =
         fsm st (c, uid)"
  using assms
  by (simp_all add: cmd_admin_def receive_broadcast_text_def receive_card_number_def
      receive_recipient_fio_def admin_broadcast_def admin_set_card_def
      broadcast_confirm_or_cancel_def state_defs Let_def split: option.split prod.split)

lemma dispatch_message_unhandled_command:
  assumes "handles_command cfg ''start'' (state (fsm st (msg_chat m, user_id (msg_from m)))) m = Inr False"
    and "handles_command cfg ''admin'' (state (fsm st (msg_chat m, user_id (msg_from m)))) m = Inr False"
  shows "dispatch_message cfg e m st =
     (if state (fsm st (msg_chat m, user_id (msg_from m))) = Some waiting_broadcast_text \<and>
         msg_text m \<noteq> None
      then receive_broadcast_text cfg m st
      else if state (fsm st (msg_chat m, user_id (msg_from m))) = Some waiting_card_number \<and>
              msg_text m \<noteq> None
      then receive_card_number cfg m st
      else if state (fsm st (msg_chat m, user_id (msg_from m))) = Some waiting_recipient_fio \<and>
              msg_text m \<noteq> None
      then receive_recipient_fio cfg m st
      else if state (fsm st (msg_chat m, user_id (msg_from m))) = None then catch_all m st
      else Inr (st, []))"
  unfolding dispatch_message_def Let_def assms by simp

lemma dispatch_cases:
  assumes "\<And>err. P (Inl (err, []))"
    and "P (Inr (st, []))"
    and "\<And>m. upd = Message m \<Longrightarrow> P (cmd_start e m st)"
    and "\<And>m. upd = Message m \<Longrightarrow> P (cmd_admin cfg m st)"
    and "\<And>m. upd = Message m \<Longrightarrow> P (receive_broadcast_text cfg m st)"
    and "\<And>m. upd = Message m \<Longrightarrow> P (receive_card_number cfg m st)"
    and "\<And>m. upd = Message m \<Longrightarrow> P (receive_recipient_fio cfg m st)"
    and "\<And>m. upd = Message m \<Longrightarrow> P (catch_all m st)"
    and "\<And>cb. upd = CallbackQuery cb \<Longrightarrow> P (process_buy cb st)"
    and "\<And>cb. upd = CallbackQuery cb \<Longrightarrow> P (process_subject cb st)"
    and "\<And>cb. upd = CallbackQuery cb \<Longrightarrow> P (process_school cb st)"
    and "\<And>cb. upd = CallbackQuery cb \<Longrightarrow> P (back_subjects cb st)"
    and "\<And>cb. upd = CallbackQuery cb \<Longrightarrow> P (back_start cb st)"
    and "\<And>cb. upd = CallbackQuery cb \<Longrightarrow> P (admin_broadcast cfg cb st)"
    and "\<And>cb. upd = CallbackQuery cb \<Longrightarrow> P (broadcast_confirm_or_cancel cfg e cb st)"
    and "\<And>cb. upd = CallbackQuery cb \<Longrightarrow> P (admin_set_card cfg cb st)"
  shows "P (dispatch cfg e upd st)"
proof (cases upd)
  case (CallbackQuery cb)
  show ?thesis
    unfolding dispatch_def CallbackQuery update.case dispatch_callback_def Let_def
    by (rule if_cases [where P = P], simp add: assms CallbackQuery)+ (simp add: assms)
next
  case (Message m)
  let ?s = "state (fsm st (msg_chat m, user_id (msg_from m)))"
  show ?thesis
  proof (cases "handles_command cfg ''start'' ?s m" rule: sum_bool_cases)
    case (Raised err)
    then show ?thesis by (simp add: dispatch_def Message dispatch_message_def assms)
  next
    case Yes
    then show ?thesis by (simp add: dispatch_def Message dispatch_message_def assms)
  next
    case No
    show ?thesis
    proof (cases "handles_command cfg ''admin'' ?s m" rule: sum_bool_cases)
      case (Raised err)
      with No show ?thesis by (simp add: dispatch_def Message dispatch_message_def assms)
    next
      case Yes
      with No show ?thesis by (simp add: dispatch_def Message dispatch_message_def assms)
    next
      case no: No
      show ?thesis
        unfolding dispatch_def Message update.case dispatch_message_unhandled_command [OF No no]
        by (rule if_cases [where P = P], simp add: assms Message)+ (simp add: assms)
    qed
  qed
qed

lemma fsm_dispatch:
  assumes "uid \<noteq> ADMIN_ID cfg"
  shows "fsm (state_after (dispatch cfg e upd st) st) (c, uid) = fsm st (c, uid)"
  by (rule dispatch_cases [where P = "\<lambda>r. fsm (state_after r st) (c, uid) = fsm st (c, uid)"])
     (simp_all add: fsm_handlers fsm_admin_handlers assms)

lemma non_admin_idle:
  assumes "reachable cfg st" and "uid \<noteq> ADMIN_ID cfg"
  shows "fsm st (c, uid) = no_session"
  using assms
proof (induction rule: reachable.induct)
  case first_start
  show ?case by (simp add: restart_def init_db_def empty_store_def)
next
  case (next_update st e upd)
  then show ?case
    by (simp add: fsm_dispatch)
next
  case (next_start st)
  show ?case by (simp add: restart_def init_db_def)
qed

lemma distinct_keys_insort_key:
  "distinct (map f (insort_key f x xs)) \<longleftrightarrow> f x \<notin> f ` set xs \<and> distinct (map f xs)"
  by (induction xs) (auto simp: set_insort_key)

lemma distinct_replace_into:
  "distinct (map fst t) \<Longrightarrow> distinct (map fst (replace_into k v t))"
  by (auto simp: replace_into_def distinct_keys_insort_key distinct_map_filter)

lemma users_handlers:
  "users (state_after (cmd_admin cfg m st) st) = users st"
  "users (state_after (receive_broadcast_text cfg m st) st) = users st"
  "users (state_after (receive_card_number cfg m st) st) = users st"
  "users (state_after (receive_recipient_fio cfg m st) st) = users st"
  "users (state_after (catch_all m st) st) = users st"
  "users (state_after (process_buy cb st) st) = users st"
  "users (state_after (process_subject cb st) st) = users st"
  "users (state_after (process_school cb st) st) = users st"
  "users (state_after (back_subjects cb st) st) = users st"
  "users (state_after (back_start cb st) st) = users st"
  "users (state_after (admin_broadcast cfg cb st) st) = users st"
  "users (state_after (broadcast_confirm_or_cancel cfg e cb st) st) = users st"
  "users (state_after (admin_set_card cfg cb st) st) = users st"
  by (simp_all add: cmd_admin_def receive_broadcast_text_def receive_card_number_def
      receive_recipient_fio_def catch_all_def process_buy_def process_subject_def
      process_school_def back_subjects_def back_start_def admin_broadcast_def
      broadcast_confirm_or_cancel_def admin_set_card_def state_defs state_after_def Let_def
      split: option.split list.split sum.split prod.split)

lemma users_dispatch:
  assumes "distinct (map fst (users st))"
  shows "distinct (map fst (users (state_after (dispatch cfg e upd st) st)))"
  by (rule dispatch_cases [where P = "\<lambda>r. distinct (map fst (users (state_after r st)))"])
     (simp_all add: users_handlers assms cmd_start_def db_add_user_def distinct_replace_into)

lemma users_distinct:
  assumes "reachable cfg st"
  shows "distinct (db_get_all_user_ids st)"
  using assms unfolding db_get_all_user_ids_def
proof (induction rule: reachable.induct)
  case first_start
  show ?case by (simp add: restart_def init_db_def empty_store_def)
next
  case (next_update st e upd)
  from next_update.IH show ?case by (rule users_dispatch)
next
  case (next_start st)
  then show ?case by (simp add: restart_def init_db_def)
qed

lemma reachable_run: "reachable cfg st \<Longrightarrow> reachable cfg (run cfg evs st)"
proof (induction evs arbitrary: st)
  case Nil
  then show ?case by simp
next
  case (Cons ev evs)
  then show ?case by (cases ev) (simp add: reachable.next_update)
qed

subsection \<open>Evaluating the concrete inputs\<close>

lemmas input_defs = example_config_def tg_def text_message_def button_press_def
  all_delivered_def third_fails_def started_def start_from_def confirm_press_def

lemmas text_defs = str_def isspace_def first_word_def startswith_def lower_def lower_chr_def
  py_partition_def

lemmas routing_defs = dispatch_def dispatch_message_def dispatch_callback_def
  handles_command_def command_filter_def data_startswith_def

lemmas eval_defs = routing_defs text_defs input_defs restart_def init_db_def empty_store_def
  no_session_def cmd_start_def db_add_user_def replace_into_def db_get_all_user_ids_def
  admin_broadcast_def receive_broadcast_text_def state_defs or_empty_def insert_or_ignore_def

lemma five_users_ids: "db_get_all_user_ids five_users = [1, 2, 3, 4, 5]"
  by (simp add: five_users_def eval_defs)

lemma text_pending_state:
  "state (fsm text_pending (1000, 1000)) = Some waiting_broadcast_text"
  by (simp add: text_pending_def five_users_def eval_defs Let_def)

lemma confirm_pending_ids: "db_get_all_user_ids confirm_pending = [1, 2, 3, 4, 5]"
  by (simp add: confirm_pending_def text_pending_def five_users_def eval_defs Let_def)

lemma confirm_pending_state:
  "state (fsm confirm_pending (1000, 1000)) = Some waiting_broadcast_confirm"
  by (simp add: confirm_pending_def text_pending_def five_users_def eval_defs Let_def)

lemma confirm_pending_reachable: "reachable example_config confirm_pending"
  unfolding confirm_pending_def text_pending_def five_users_def started_def
  by (intro reachable_run reachable.first_start)

lemma dispatch_confirm:
  assumes "state (fsm st (cb_chat cb, user_id (cb_from cb))) = Some waiting_broadcast_confirm"
    and "cb_data cb = Some (str ''broadcast_confirm'')"
  shows "dispatch cfg e (CallbackQuery cb) st = broadcast_confirm_or_cancel cfg e cb st"
  using assms by (simp add: dispatch_def dispatch_callback_def)

lemma confirm_is_not_cancel: "str ''broadcast_confirm'' \<noteq> str ''broadcast_cancel''"
  by (simp add: str_def)

lemma third_of_five_fails:
  assumes "\<forall>i<5. out i = Failed \<longleftrightarrow> i = 2"
  shows "count_outcome out Failed 0 5 = 1" and "count_outcome out Delivered 0 5 = 4"
proof -
  have "out 0 \<noteq> Failed" "out 1 \<noteq> Failed" "out 2 = Failed" "out 3 \<noteq> Failed" "out 4 \<noteq> Failed"
    using assms by auto
  moreover have "[0..<5] = [0, 1, 2, 3, 4::nat]"
    by (simp add: upt_rec)
  ultimately show f: "count_outcome out Failed 0 5 = 1"
    by (simp add: count_outcome_def)
  from count_outcome_total [of out 0 5] f show "count_outcome out Delivered 0 5 = 4"
    by simp
qed

lemma confirm_press_facts:
  "user_id (cb_from confirm_press) = ADMIN_ID example_config"
  "state (fsm confirm_pending (cb_chat confirm_press, ADMIN_ID example_config)) =
     Some waiting_broadcast_confirm"
  "cb_data confirm_press = Some (str ''broadcast_confirm'')"
  "cb_chat confirm_press = 1000"
  "ADMIN_ID example_config = 1000"
  using confirm_pending_state
  by (simp_all add: confirm_press_def button_press_def tg_def example_config_def)

lemma contains_middle: "contains (a @ p @ b) p"
  unfolding contains_def list_ex_iff
  by (rule bexI [of _ "length a"]) simp_all

lemma report_text_contains:
  "contains (report_text sent failed) (str_nat sent)"
  "contains (report_text sent failed) (str_nat failed)"
proof -
  show "contains (report_text sent failed) (str_nat sent)"
    unfolding report_text_def by (rule contains_middle)
  have "report_text sent failed =
      (report_sent_label @ str_nat sent @ report_failed_label) @ str_nat failed @ str ''.''"
    by (simp add: report_text_def)
  then show "contains (report_text sent failed) (str_nat failed)"
    by (simp only: contains_middle)
qed


lemma admin_command_is_not_start:
  "command_filter cfg ''admin'' t = Inr True \<Longrightarrow> command_filter cfg ''start'' t = Inr False"
  by (auto simp: command_filter_def Let_def str_def split: if_splits option.splits prod.splits)

lemma dispatch_admin_command:
  assumes "state (fsm st (msg_chat m, user_id (msg_from m))) = None"
    and "msg_text m = Some t"
    and "command_filter cfg ''admin'' t = Inr True"
  shows "dispatch cfg e (Message m) st = cmd_admin cfg m st"
  using assms admin_command_is_not_start [OF assms(3)]
  by (simp add: dispatch_def dispatch_message_def handles_command_def)

lemma dispatch_admin_buttons:
  assumes "state (fsm st (cb_chat cb, user_id (cb_from cb))) = None"
  shows "cb_data cb = Some (str ''admin_broadcast'') \<Longrightarrow>
         dispatch cfg e (CallbackQuery cb) st = admin_broadcast cfg cb st"
    and "cb_data cb = Some (str ''admin_set_card'') \<Longrightarrow>
         dispatch cfg e (CallbackQuery cb) st = admin_set_card cfg cb st"
  using assms
  by (simp_all add: dispatch_def dispatch_callback_def data_startswith_def startswith_def str_def)

lemma five_users_reachable: "reachable example_config five_users"
  unfolding five_users_def started_def by (intro reachable_run reachable.first_start)

lemma dispatch_idle_other:
  assumes "state (fsm st (msg_chat m, user_id (msg_from m))) = None"
    and "handles_command cfg ''start'' None m = Inr False"
    and "handles_command cfg ''admin'' None m = Inr False"
  shows "dispatch cfg e (Message m) st = catch_all m st"
  using assms by (simp add: dispatch_def dispatch_message_def)

lemma catch_all_slash:
  "catch_all m st = Inr (st, if slash_text m then [] else [reply m fallback_text None])"
  by (simp add: catch_all_def slash_text_def split: option.split)

lemma card_pending_state: "state (fsm card_pending (1000, 1000)) = Some waiting_card_number"
  by (simp add: card_pending_def five_users_def eval_defs admin_set_card_def Let_def)

lemma foo_facts:
  "user_id (msg_from (text_message 1000 (str ''/foo''))) = ADMIN_ID example_config"
  "msg_text (text_message 1000 (str ''/foo'')) = Some (str ''/foo'')"
  "state (fsm card_pending (msg_chat (text_message 1000 (str ''/foo'')), ADMIN_ID example_config)) =
     Some waiting_card_number"
  "slash_text (text_message 1000 (str ''/foo''))"
  "strip (str ''/foo'') = str ''/foo''"
  using card_pending_state
  by (simp_all add: text_message_def tg_def example_config_def slash_text_def startswith_def
      str_def strip_def lstrip_def rstrip_def isspace_def)

lemma break_at_found: "sep \<notin> set p \<Longrightarrow> break_at sep (p @ sep # q) = Some (p, q)"
  by (induction p) auto

lemma split_school_data:
  assumes "124 \<notin> set k"
  shows "py_split 124 2 (str ''school|'' @ k @ str ''|'' @ school) = [str ''school'', k, school]"
proof -
  have eq: "str ''school|'' @ k @ str ''|'' @ school = str ''school'' @ 124 # (k @ 124 # school)"
    by (simp add: str_def)
  have "124 \<notin> set (str ''school'')"
    by (simp add: str_def)
  then show ?thesis
    unfolding eq using assms by (simp add: numeral_2_eq_2 break_at_found)
qed

lemma subject_key_has_no_bar:
  assumes "map_of SUBJECTS k = Some v"
  shows "124 \<notin> set k"
proof -
  from assms have "k \<in> fst ` set SUBJECTS"
    by (meson domI dom_map_of_conv_image_fst[THEN equalityD1] subsetD)
  then show ?thesis
    by (auto simp: SUBJECTS_def str_def)
qed

lemma dispatch_school:
  assumes "state (fsm st (cb_chat cb, user_id (cb_from cb))) = None"
    and "cb_data cb = Some (str ''school|'' @ rest)"
  shows "dispatch cfg e (CallbackQuery cb) st = process_school cb st"
  using assms
  by (simp add: dispatch_def dispatch_callback_def data_startswith_def startswith_def str_def)

lemma process_school_render:
  assumes "map_of SUBJECTS k = Some (title, price)"
    and "cb_data cb = Some (str ''school|'' @ k @ str ''|'' @ school)"
  shows "process_school cb st =
     Inr (st, [AnswerCallback None False,
               edit_message_text cb
                 (product_text title school price (db_get_setting st (str ''card_number''))
                    (db_get_setting st (str ''recipient_fio'')))
                 product_keyboard (Some ''Markdown'')])"
  using assms split_school_data [OF subject_key_has_no_bar [OF assms(1)], of school]
  by (simp add: process_school_def)

lemma settings_keys_differ: "str ''card_number'' \<noteq> str ''recipient_fio''"
  by (simp add: str_def)

lemma dispatch_back_start:
  assumes "state (fsm st (cb_chat cb, user_id (cb_from cb))) = None"
    and "cb_data cb = Some (str ''back_start'')"
  shows "dispatch cfg e (CallbackQuery cb) st = back_start cb st"
  using assms
  by (simp add: dispatch_def dispatch_callback_def data_startswith_def startswith_def str_def)

lemma dispatch_start:
  "dispatch example_config all_delivered (Message (text_message 1 (str ''/start''))) started =
   cmd_start all_delivered (text_message 1 (str ''/start'')) started"
  by (simp add: routing_defs text_defs input_defs restart_def init_db_def empty_store_def
      no_session_def)

lemma welcome_texts_differ: "back_start_text \<noteq> welcome_text"
  by (simp add: back_start_text_def welcome_text_def)

lemma others_message_handlers:
  assumes "user_id (msg_from m) \<noteq> ADMIN_ID cfg"
  shows "fsm (state_after (cmd_admin cfg m st) st) = fsm st"
    and "fsm (state_after (receive_broadcast_text cfg m st) st) = fsm st"
    and "fsm (state_after (receive_card_number cfg m st) st) = fsm st"
    and "fsm (state_after (receive_recipient_fio cfg m st) st) = fsm st"
    and "settings (state_after (receive_recipient_fio cfg m st) st) = settings st"
  using assms
  by (simp_all add: cmd_admin_def receive_broadcast_text_def receive_card_number_def
      receive_recipient_fio_def)

lemma others_callback_handlers:
  assumes "user_id (cb_from cb) \<noteq> ADMIN_ID cfg"
  shows "fsm (state_after (admin_broadcast cfg cb st) st) = fsm st"
    and "fsm (state_after (admin_set_card cfg cb st) st) = fsm st"
    and "fsm (state_after (broadcast_confirm_or_cancel cfg e cb st) st) = fsm st"
  using assms
  by (simp_all add: admin_broadcast_def admin_set_card_def broadcast_confirm_or_cancel_def)

lemma plain_handlers:
  "fsm (state_after (cmd_start e m st) st) = fsm st"
  "fsm (state_after (catch_all m st) st) = fsm st"
  "fsm (state_after (process_buy cb st) st) = fsm st"
  "fsm (state_after (process_subject cb st) st) = fsm st"
  "fsm (state_after (process_school cb st) st) = fsm st"
  "fsm (state_after (back_subjects cb st) st) = fsm st"
  "fsm (state_after (back_start cb st) st) = fsm st"
  by (simp_all add: cmd_start_def db_add_user_def catch_all_def process_buy_def
      process_subject_def process_school_def back_subjects_def back_start_def state_after_def
      Let_def split: option.split list.split sum.split)

lemma settings_handlers:
  "settings (state_after (cmd_start e m st) st) = settings st"
  "settings (state_after (cmd_admin cfg m st) st) = settings st"
  "settings (state_after (receive_broadcast_text cfg m st) st) = settings st"
  "settings (state_after (receive_card_number cfg m st) st) = settings st"
  "settings (state_after (catch_all m st) st) = settings st"
  "settings (state_after (process_buy cb st) st) = settings st"
  "settings (state_after (process_subject cb st) st) = settings st"
  "settings (state_after (process_school cb st) st) = settings st"
  "settings (state_after (back_subjects cb st) st) = settings st"
  "settings (state_after (back_start cb st) st) = settings st"
  "settings (state_after (admin_broadcast cfg cb st) st) = settings st"
  "settings (state_after (broadcast_confirm_or_cancel cfg e cb st) st) = settings st"
  "settings (state_after (admin_set_card cfg cb st) st) = settings st"
  by (simp_all add: cmd_start_def cmd_admin_def receive_broadcast_text_def
      receive_card_number_def catch_all_def process_buy_def process_subject_def
      process_school_def back_subjects_def back_start_def admin_broadcast_def
      broadcast_confirm_or_cancel_def admin_set_card_def state_defs state_after_def Let_def
      split: option.split list.split sum.split prod.split)

lemma others_dispatch:
  assumes "sender upd \<noteq> ADMIN_ID cfg"
  shows "fsm (state_after (dispatch cfg e upd st) st) = fsm st \<and>
         settings (state_after (dispatch cfg e upd st) st) = settings st"
  using assms
  by (intro dispatch_cases [where P = "\<lambda>r. fsm (state_after r st) = fsm st \<and>
        settings (state_after r st) = settings st"])
     (simp_all add: sender_def others_message_handlers others_callback_handlers plain_handlers
       settings_handlers)

lemma others_run:
  assumes "from_others cfg evs"
  shows "fsm (run cfg evs st) = fsm st \<and> settings (run cfg evs st) = settings st"
  using assms
proof (induction evs arbitrary: st)
  case Nil
  show ?case by simp
next
  case (Cons ev evs)
  obtain e upd where ev: "ev = (e, upd)" by (cases ev)
  from Cons.prems have "sender upd \<noteq> ADMIN_ID cfg" and "from_others cfg evs"
    by (simp_all add: from_others_def ev)
  with Cons.IH [of "state_after (dispatch cfg e upd st) st"] others_dispatch [of upd cfg e st]
  show ?case by (simp add: ev)
qed

lemma run_append: "run cfg (xs @ ys) st = run cfg ys (run cfg xs st)"
  by (induction xs arbitrary: st) auto

lemma product_text_shows:
  "\<exists>pre post. product_text title school price c f = pre @ details_heading @ c @ [10] @ f @ post"
  "contains (product_text title school price c f) c"
  "contains (product_text title school price c f) f"
proof -
  obtain pre post where
    eq: "product_text title school price c f = pre @ details_heading @ c @ [10] @ f @ post"
    unfolding product_text_def
    by (metis append.assoc)
  then show "\<exists>pre post.
      product_text title school price c f = pre @ details_heading @ c @ [10] @ f @ post"
    by blast
  have "product_text title school price c f = (pre @ details_heading) @ c @ ([10] @ f @ post)"
    by (simp add: eq)
  then show "contains (product_text title school price c f) c"
    by (simp only: contains_middle)
  have "product_text title school price c f = (pre @ details_heading @ c @ [10]) @ f @ post"
    by (simp add: eq)
  then show "contains (product_text title school price c f) f"
    by (simp only: contains_middle)
qed

lemma details_flow_facts:
  "user_id (msg_from card_message) = ADMIN_ID example_config"
  "msg_text card_message = Some (str '' 4000 1234 '')"
  "user_id (msg_from fio_message) = ADMIN_ID example_config"
  "msg_text fio_message = Some (str ''Ivan Petrov '')"
  "msg_chat fio_message = msg_chat card_message"
  "state (fsm card_pending (msg_chat card_message, ADMIN_ID example_config)) =
     Some waiting_card_number"
  "from_others example_config traffic_between"
  "from_others example_config traffic_after"
  using card_pending_state
  by (simp_all add: card_message_def fio_message_def text_message_def tg_def example_config_def
      from_others_def traffic_between_def traffic_after_def start_from_def sender_def
      button_press_def)

lemma later_state_reachable: "reachable example_config later_state"
  unfolding later_state_def details_set_def card_pending_def
  by (intro reachable_run five_users_reachable)

lemma product_press_facts:
  "state (fsm later_state (cb_chat product_press, user_id (cb_from product_press))) = None"
  "map_of SUBJECTS (fst (hd SUBJECTS)) = Some (fst (snd (hd SUBJECTS)), snd (snd (hd SUBJECTS)))"
  "cb_data product_press = Some (str ''school|'' @ fst (hd SUBJECTS) @ str ''|'' @ pifagor)"
proof -
  show "state (fsm later_state (cb_chat product_press, user_id (cb_from product_press))) = None"
    using non_admin_idle [OF later_state_reachable, of 1 1]
    by (simp add: product_press_def button_press_def tg_def example_config_def no_session_def)
qed (simp_all add: SUBJECTS_def product_press_def button_press_def)

lemma stripped:
  "strip (str '' 4000 1234 '') = str ''4000 1234''"
  "strip (str ''Ivan Petrov '') = str ''Ivan Petrov''"
  by (simp_all add: strip_def lstrip_def rstrip_def isspace_def str_def)

section \<open>The claims\<close>

text \<open>
  C4. When the administrator's text arrives in the state \<open>waiting_broadcast_text\<close>, the
  draft stored under \<open>broadcast_text\<close> is the text cut to exactly 4000 code points when
  the text is longer than 4000, and the text itself when it is not.
\<close>

theorem broadcast_text_truncated:
  assumes "user_id (msg_from m) = ADMIN_ID cfg"
    and "msg_text m = Some t"
    and "state (fsm st (msg_chat m, ADMIN_ID cfg)) = Some waiting_broadcast_text"
  shows "\<exists>st' acts draft. dispatch cfg e (Message m) st = Inr (st', acts) \<and>
     data (fsm st' (msg_chat m, ADMIN_ID cfg)) ''broadcast_text'' = Some draft \<and>
     (4000 < length t \<longrightarrow> draft = take 4000 t \<and> length draft = 4000) \<and>
     (length t \<le> 4000 \<longrightarrow> draft = t)"
  using assms
  by (simp add: dispatch_text_in_state receive_broadcast_text_def set_state_def update_data_def
      Let_def)

theorem broadcast_text_truncated_witness:
  "user_id (msg_from long_message) = ADMIN_ID example_config \<and>
   msg_text long_message = Some (replicate 4001 97) \<and>
   state (fsm text_pending (msg_chat long_message, ADMIN_ID example_config)) =
     Some waiting_broadcast_text \<and>
   length (replicate 4001 (97::nat)) = 4001 \<and>
   (\<exists>st' acts draft.
      dispatch example_config all_delivered (Message long_message) text_pending =
        Inr (st', acts) \<and>
      data (fsm st' (msg_chat long_message, ADMIN_ID example_config)) ''broadcast_text'' =
        Some draft \<and>
      draft = replicate 4000 97 \<and> length draft = 4000)"
proof -
  have a: "user_id (msg_from long_message) = ADMIN_ID example_config"
    and b: "msg_text long_message = Some (replicate 4001 97)"
    and c: "state (fsm text_pending (msg_chat long_message, ADMIN_ID example_config)) =
      Some waiting_broadcast_text"
    using text_pending_state
    by (simp_all add: long_message_def text_message_def tg_def example_config_def)
  from broadcast_text_truncated [OF a b c, of all_delivered]
  show ?thesis
    using a b c by auto
qed


text \<open>
  C2. A failed delivery is counted and the loop goes on: whatever the outcomes of the
  sends, the confirmed broadcast addresses every identity of the list, in order, counts the
  delivered and the failed sends, and ends with the report. With five identities of which
  exactly the third fails, the counts are 4 sent and 1 failed.
\<close>

theorem broadcast_failure_does_not_abort:
  assumes "user_id (cb_from cb) = ADMIN_ID cfg"
    and "state (fsm st (cb_chat cb, ADMIN_ID cfg)) = Some waiting_broadcast_confirm"
    and "cb_data cb = Some (str ''broadcast_confirm'')"
  shows "\<exists>acts sent failed.
     dispatch cfg e (CallbackQuery cb) st =
       Inr (finish (cb_chat cb, ADMIN_ID cfg) st,
            AnswerCallback (Some broadcast_starting_text) False # acts @
            [SendMessage (ADMIN_ID cfg) (report_text sent failed) None None None]) \<and>
     recipients acts = db_get_all_user_ids st \<and>
     sent = count_outcome (outcome e) Delivered 0 (length (db_get_all_user_ids st)) \<and>
     failed = count_outcome (outcome e) Failed 0 (length (db_get_all_user_ids st)) \<and>
     (length (db_get_all_user_ids st) = 5 \<and> (\<forall>i<5. outcome e i = Failed \<longleftrightarrow> i = 2) \<longrightarrow>
        sent = 4 \<and> failed = 1)"
proof -
  have "cb_data cb \<noteq> Some (str ''broadcast_cancel'')"
    using assms(3) confirm_is_not_cancel by simp
  from confirm_result [OF assms(1) this, of e st]
  obtain acts where
    "broadcast_confirm_or_cancel cfg e cb st =
      Inr (finish (cb_chat cb, ADMIN_ID cfg) st,
           AnswerCallback (Some broadcast_starting_text) False # acts @
           [SendMessage (ADMIN_ID cfg)
              (report_text
                 (count_outcome (outcome e) Delivered 0 (length (db_get_all_user_ids st)))
                 (count_outcome (outcome e) Failed 0 (length (db_get_all_user_ids st))))
              None None None])"
    and "recipients acts = db_get_all_user_ids st"
    by blast
  moreover have "dispatch cfg e (CallbackQuery cb) st = broadcast_confirm_or_cancel cfg e cb st"
    using assms by (simp add: dispatch_confirm)
  ultimately show ?thesis
    using third_of_five_fails by (intro exI [of _ acts]) auto
qed

theorem broadcast_failure_does_not_abort_witness:
  "user_id (cb_from confirm_press) = ADMIN_ID example_config \<and>
   state (fsm confirm_pending (cb_chat confirm_press, ADMIN_ID example_config)) =
     Some waiting_broadcast_confirm \<and>
   cb_data confirm_press = Some (str ''broadcast_confirm'') \<and>
   db_get_all_user_ids confirm_pending = [1, 2, 3, 4, 5] \<and>
   map (outcome third_fails) [0, 1, 2, 3, 4] =
     [Delivered, Delivered, Failed, Delivered, Delivered] \<and>
   (\<exists>acts.
      dispatch example_config third_fails (CallbackQuery confirm_press) confirm_pending =
        Inr (finish (cb_chat confirm_press, ADMIN_ID example_config) confirm_pending,
             AnswerCallback (Some broadcast_starting_text) False # acts @
             [SendMessage (ADMIN_ID example_config) (report_text 4 1) None None None]) \<and>
      recipients acts = [1, 2, 3, 4, 5])"
proof -
  have five: "length (db_get_all_user_ids confirm_pending) = 5 \<and>
      (\<forall>i<5. outcome third_fails i = Failed \<longleftrightarrow> i = 2)"
    by (simp add: confirm_pending_ids third_fails_def)
  have outs: "map (outcome third_fails) [0, 1, 2, 3, 4] =
      [Delivered, Delivered, Failed, Delivered, Delivered]"
    by (simp add: third_fails_def)
  from broadcast_failure_does_not_abort [OF confirm_press_facts(1-3), of third_fails]
  obtain acts sent failed where
    "dispatch example_config third_fails (CallbackQuery confirm_press) confirm_pending =
       Inr (finish (cb_chat confirm_press, ADMIN_ID example_config) confirm_pending,
            AnswerCallback (Some broadcast_starting_text) False # acts @
            [SendMessage (ADMIN_ID example_config) (report_text sent failed) None None None])"
    and "recipients acts = db_get_all_user_ids confirm_pending"
    and "length (db_get_all_user_ids confirm_pending) = 5 \<and>
         (\<forall>i<5. outcome third_fails i = Failed \<longleftrightarrow> i = 2) \<longrightarrow> sent = 4 \<and> failed = 1"
    by blast
  with five have "\<exists>acts.
      dispatch example_config third_fails (CallbackQuery confirm_press) confirm_pending =
        Inr (finish (cb_chat confirm_press, ADMIN_ID example_config) confirm_pending,
             AnswerCallback (Some broadcast_starting_text) False # acts @
             [SendMessage (ADMIN_ID example_config) (report_text 4 1) None None None]) \<and>
      recipients acts = [1, 2, 3, 4, 5]"
    by (auto simp only: confirm_pending_ids)
  then show ?thesis
    by (intro conjI confirm_press_facts(1-3) confirm_pending_ids outs)
qed

text \<open>
  C6, as the specification states it: the report names the count sent, the count failed
  and the total attempted. With five identities of which the third fails the report is
  "Done. Sent: 4. Not delivered: 1." and the total, 5, does not occur in it.
\<close>

theorem report_omits_total_counterexample:
  "last (actions_of (dispatch example_config third_fails (CallbackQuery confirm_press)
                       confirm_pending)) =
     SendMessage 1000 (report_text 4 1) None None None \<and>
   length (db_get_all_user_ids confirm_pending) = 5 \<and>
   \<not> contains (report_text 4 1) (str_nat 5)"
proof -
  have not_cancel: "cb_data confirm_press \<noteq> Some (str ''broadcast_cancel'')"
    using confirm_is_not_cancel by (simp add: confirm_press_facts)
  have routed: "dispatch example_config third_fails (CallbackQuery confirm_press) confirm_pending =
      broadcast_confirm_or_cancel example_config third_fails confirm_press confirm_pending"
    by (intro dispatch_confirm) (simp_all add: confirm_press_facts confirm_pending_state)
  have counts: "count_outcome (outcome third_fails) Delivered 0 5 = 4"
    "count_outcome (outcome third_fails) Failed 0 5 = 1"
    using third_of_five_fails [of "outcome third_fails"] by (simp_all add: third_fails_def)
  have len: "length (db_get_all_user_ids confirm_pending) = 5"
    by (simp add: confirm_pending_ids)
  from confirm_result [OF confirm_press_facts(1) not_cancel, of third_fails confirm_pending,
      unfolded len counts]
  have "last (actions_of (broadcast_confirm_or_cancel example_config third_fails confirm_press
                            confirm_pending)) =
      SendMessage 1000 (report_text 4 1) None None None"
    by (auto simp: actions_of_def confirm_press_facts)
  moreover have "\<not> contains (report_text 4 1) (str_nat 5)"
    by (simp add: contains_def report_text_def report_sent_label_def report_failed_label_def
        str_nat.simps str_def upt_rec)
  ultimately show ?thesis
    by (simp add: routed len)
qed

text \<open>
  C6, amended: the report of a completed broadcast is the text
  "Done. Sent: s. Not delivered: f." where \<open>s\<close> and \<open>f\<close> are the numbers of delivered
  and of failed sends; both occur in it, and they add up to the number of identities
  attempted, which the report does not print.
\<close>

theorem report_gives_sent_and_failed:
  assumes "user_id (cb_from cb) = ADMIN_ID cfg"
    and "state (fsm st (cb_chat cb, ADMIN_ID cfg)) = Some waiting_broadcast_confirm"
    and "cb_data cb = Some (str ''broadcast_confirm'')"
  shows "\<exists>log sent failed.
     dispatch cfg e (CallbackQuery cb) st =
       Inr (finish (cb_chat cb, ADMIN_ID cfg) st,
            log @ [SendMessage (ADMIN_ID cfg) (report_text sent failed) None None None]) \<and>
     sent = count_outcome (outcome e) Delivered 0 (length (db_get_all_user_ids st)) \<and>
     failed = count_outcome (outcome e) Failed 0 (length (db_get_all_user_ids st)) \<and>
     sent + failed = length (db_get_all_user_ids st) \<and>
     report_text sent failed =
       report_sent_label @ str_nat sent @ report_failed_label @ str_nat failed @ str ''.'' \<and>
     contains (report_text sent failed) (str_nat sent) \<and>
     contains (report_text sent failed) (str_nat failed)"
proof -
  have "cb_data cb \<noteq> Some (str ''broadcast_cancel'')"
    using assms(3) confirm_is_not_cancel by simp
  from confirm_result [OF assms(1) this, of e st]
  obtain acts where
    "broadcast_confirm_or_cancel cfg e cb st =
      Inr (finish (cb_chat cb, ADMIN_ID cfg) st,
           (AnswerCallback (Some broadcast_starting_text) False # acts) @
           [SendMessage (ADMIN_ID cfg)
              (report_text
                 (count_outcome (outcome e) Delivered 0 (length (db_get_all_user_ids st)))
                 (count_outcome (outcome e) Failed 0 (length (db_get_all_user_ids st))))
              None None None])"
    by auto
  moreover have "dispatch cfg e (CallbackQuery cb) st = broadcast_confirm_or_cancel cfg e cb st"
    using assms by (simp add: dispatch_confirm)
  ultimately show ?thesis
    using count_outcome_total [of "outcome e" 0 "length (db_get_all_user_ids st)"]
      report_text_contains report_text_def
    by (intro exI [of _ "AnswerCallback (Some broadcast_starting_text) False # acts"]) auto
qed

theorem report_gives_sent_and_failed_witness:
  "user_id (cb_from confirm_press) = ADMIN_ID example_config \<and>
   state (fsm confirm_pending (cb_chat confirm_press, ADMIN_ID example_config)) =
     Some waiting_broadcast_confirm \<and>
   cb_data confirm_press = Some (str ''broadcast_confirm'') \<and>
   (\<exists>log sent failed.
     dispatch example_config all_delivered (CallbackQuery confirm_press) confirm_pending =
       Inr (finish (cb_chat confirm_press, ADMIN_ID example_config) confirm_pending,
            log @ [SendMessage (ADMIN_ID example_config) (report_text sent failed) None None None]) \<and>
     sent = count_outcome (outcome all_delivered) Delivered 0 (length (db_get_all_user_ids confirm_pending)) \<and>
     failed = count_outcome (outcome all_delivered) Failed 0 (length (db_get_all_user_ids confirm_pending)) \<and>
     sent + failed = length (db_get_all_user_ids confirm_pending) \<and>
     report_text sent failed =
       report_sent_label @ str_nat sent @ report_failed_label @ str_nat failed @ str ''.'' \<and>
     contains (report_text sent failed) (str_nat sent) \<and>
     contains (report_text sent failed) (str_nat failed))"
  by (intro conjI confirm_press_facts(1-3)
      report_gives_sent_and_failed [OF confirm_press_facts(1-3)])

text \<open>
  C10. In every state the bot can reach, a confirmed broadcast addresses exactly the
  identities the listing of the table \<open>users\<close> returns, each of them once: the listing has
  no duplicates, since the identity is the primary key. The two counters add up to the
  length of the listing.
\<close>

theorem each_user_attempted_once:
  assumes "reachable cfg st"
    and "user_id (cb_from cb) = ADMIN_ID cfg"
    and "state (fsm st (cb_chat cb, ADMIN_ID cfg)) = Some waiting_broadcast_confirm"
    and "cb_data cb = Some (str ''broadcast_confirm'')"
  shows "\<exists>acts sent failed.
     dispatch cfg e (CallbackQuery cb) st =
       Inr (finish (cb_chat cb, ADMIN_ID cfg) st,
            AnswerCallback (Some broadcast_starting_text) False # acts @
            [SendMessage (ADMIN_ID cfg) (report_text sent failed) None None None]) \<and>
     recipients acts = db_get_all_user_ids st \<and>
     distinct (recipients acts) \<and>
     sent + failed = length (db_get_all_user_ids st)"
proof -
  have "cb_data cb \<noteq> Some (str ''broadcast_cancel'')"
    using assms(4) confirm_is_not_cancel by simp
  from confirm_result [OF assms(2) this, of e st]
  obtain acts where
    "broadcast_confirm_or_cancel cfg e cb st =
      Inr (finish (cb_chat cb, ADMIN_ID cfg) st,
           AnswerCallback (Some broadcast_starting_text) False # acts @
           [SendMessage (ADMIN_ID cfg)
              (report_text
                 (count_outcome (outcome e) Delivered 0 (length (db_get_all_user_ids st)))
                 (count_outcome (outcome e) Failed 0 (length (db_get_all_user_ids st))))
              None None None])"
    and "recipients acts = db_get_all_user_ids st"
    by blast
  moreover have "dispatch cfg e (CallbackQuery cb) st = broadcast_confirm_or_cancel cfg e cb st"
    using assms by (simp add: dispatch_confirm)
  ultimately show ?thesis
    using count_outcome_total [of "outcome e" 0 "length (db_get_all_user_ids st)"]
      users_distinct [OF assms(1)]
    by (intro exI [of _ acts]) auto
qed

theorem each_user_attempted_once_witness:
  "reachable example_config confirm_pending \<and>
   user_id (cb_from confirm_press) = ADMIN_ID example_config \<and>
   state (fsm confirm_pending (cb_chat confirm_press, ADMIN_ID example_config)) =
     Some waiting_broadcast_confirm \<and>
   cb_data confirm_press = Some (str ''broadcast_confirm'') \<and>
   (\<exists>acts sent failed.
     dispatch example_config all_delivered (CallbackQuery confirm_press) confirm_pending =
       Inr (finish (cb_chat confirm_press, ADMIN_ID example_config) confirm_pending,
            AnswerCallback (Some broadcast_starting_text) False # acts @
            [SendMessage (ADMIN_ID example_config) (report_text sent failed) None None None]) \<and>
     recipients acts = db_get_all_user_ids confirm_pending \<and>
     distinct (recipients acts) \<and>
     sent + failed = length (db_get_all_user_ids confirm_pending))"
  by (intro conjI confirm_pending_reachable confirm_press_facts(1-3)
      each_user_attempted_once [OF confirm_pending_reachable confirm_press_facts(1-3)])

text \<open>
  C1. In every state the bot can reach, a user who is not the administrator and sends the
  command \<open>/admin\<close>, or presses the broadcast button or the button for the payment
  details, gets the notice that access is denied; the state of the bot is unchanged, so
  the settings are as before, and the user has no state and no data in the storage of the
  finite-state machine.
\<close>

theorem non_admin_is_denied:
  assumes "reachable cfg st"
    and "user_id (msg_from m) \<noteq> ADMIN_ID cfg"
    and "msg_text m = Some t"
    and "command_filter cfg ''admin'' t = Inr True"
    and "user_id (cb_from cb1) \<noteq> ADMIN_ID cfg"
    and "cb_data cb1 = Some (str ''admin_broadcast'')"
    and "user_id (cb_from cb2) \<noteq> ADMIN_ID cfg"
    and "cb_data cb2 = Some (str ''admin_set_card'')"
  shows "dispatch cfg e (Message m) st = Inr (st, [reply m access_denied_text None]) \<and>
         dispatch cfg e (CallbackQuery cb1) st =
           Inr (st, [AnswerCallback (Some no_access_alert) True]) \<and>
         dispatch cfg e (CallbackQuery cb2) st =
           Inr (st, [AnswerCallback (Some no_access_alert) True]) \<and>
         fsm st (msg_chat m, user_id (msg_from m)) = no_session \<and>
         fsm st (cb_chat cb1, user_id (cb_from cb1)) = no_session \<and>
         fsm st (cb_chat cb2, user_id (cb_from cb2)) = no_session"
proof -
  have idle: "fsm st (msg_chat m, user_id (msg_from m)) = no_session"
    "fsm st (cb_chat cb1, user_id (cb_from cb1)) = no_session"
    "fsm st (cb_chat cb2, user_id (cb_from cb2)) = no_session"
    using assms by (simp_all add: non_admin_idle)
  then have none: "state (fsm st (msg_chat m, user_id (msg_from m))) = None"
    "state (fsm st (cb_chat cb1, user_id (cb_from cb1))) = None"
    "state (fsm st (cb_chat cb2, user_id (cb_from cb2))) = None"
    by (simp_all add: no_session_def)
  have "dispatch cfg e (Message m) st = Inr (st, [reply m access_denied_text None])"
    using assms by (simp add: dispatch_admin_command [OF none(1)] cmd_admin_def)
  moreover have "dispatch cfg e (CallbackQuery cb1) st =
      Inr (st, [AnswerCallback (Some no_access_alert) True])"
    using assms by (simp add: dispatch_admin_buttons(1) [OF none(2)] admin_broadcast_def)
  moreover have "dispatch cfg e (CallbackQuery cb2) st =
      Inr (st, [AnswerCallback (Some no_access_alert) True])"
    using assms by (simp add: dispatch_admin_buttons(2) [OF none(3)] admin_set_card_def)
  ultimately show ?thesis using idle by simp
qed

theorem non_admin_is_denied_witness:
  "reachable example_config five_users \<and>
   user_id (msg_from (text_message 1 (str ''/admin''))) \<noteq> ADMIN_ID example_config \<and>
   msg_text (text_message 1 (str ''/admin'')) = Some (str ''/admin'') \<and>
   command_filter example_config ''admin'' (str ''/admin'') = Inr True \<and>
   user_id (cb_from (button_press 2 (str ''admin_broadcast''))) \<noteq> ADMIN_ID example_config \<and>
   cb_data (button_press 2 (str ''admin_broadcast'')) = Some (str ''admin_broadcast'') \<and>
   user_id (cb_from (button_press 3 (str ''admin_set_card''))) \<noteq> ADMIN_ID example_config \<and>
   cb_data (button_press 3 (str ''admin_set_card'')) = Some (str ''admin_set_card'') \<and>
   dispatch example_config all_delivered (Message (text_message 1 (str ''/admin''))) five_users =
     Inr (five_users, [reply (text_message 1 (str ''/admin'')) access_denied_text None]) \<and>
   dispatch example_config all_delivered
       (CallbackQuery (button_press 2 (str ''admin_broadcast''))) five_users =
     Inr (five_users, [AnswerCallback (Some no_access_alert) True]) \<and>
   dispatch example_config all_delivered
       (CallbackQuery (button_press 3 (str ''admin_set_card''))) five_users =
     Inr (five_users, [AnswerCallback (Some no_access_alert) True])"
proof -
  have a: "user_id (msg_from (text_message 1 (str ''/admin''))) \<noteq> ADMIN_ID example_config"
    and b: "msg_text (text_message 1 (str ''/admin'')) = Some (str ''/admin'')"
    and c: "command_filter example_config ''admin'' (str ''/admin'') = Inr True"
    and d: "user_id (cb_from (button_press 2 (str ''admin_broadcast''))) \<noteq>
            ADMIN_ID example_config"
    and f: "cb_data (button_press 2 (str ''admin_broadcast'')) = Some (str ''admin_broadcast'')"
    and g: "user_id (cb_from (button_press 3 (str ''admin_set_card''))) \<noteq>
            ADMIN_ID example_config"
    and h: "cb_data (button_press 3 (str ''admin_set_card'')) = Some (str ''admin_set_card'')"
    by (simp_all add: command_filter_def text_defs input_defs)
  from non_admin_is_denied [OF five_users_reachable a b c d f g h, of all_delivered]
  show ?thesis
    using five_users_reachable a b c d f g h by simp
qed

text \<open>
  C8, as the specification states it: every input that matches no known action, free text
  or command, is answered with the fallback notice. User 1, who has no state, sends the
  unknown command \<open>/foo\<close>: no handler but \<open>catch_all\<close> takes it, and \<open>catch_all\<close>
  returns without a reply.
\<close>

theorem unknown_command_counterexample:
  "handles_command example_config ''start'' None (text_message 1 (str ''/foo'')) = Inr False \<and>
   handles_command example_config ''admin'' None (text_message 1 (str ''/foo'')) = Inr False \<and>
   state (fsm five_users (1, 1)) = None \<and>
   dispatch example_config all_delivered (Message (text_message 1 (str ''/foo''))) five_users =
     Inr (five_users, [])"
proof -
  have a: "handles_command example_config ''start'' None (text_message 1 (str ''/foo'')) =
      Inr False"
    and b: "handles_command example_config ''admin'' None (text_message 1 (str ''/foo'')) =
      Inr False"
    and c: "slash_text (text_message 1 (str ''/foo''))"
    by (simp_all add: handles_command_def command_filter_def slash_text_def text_defs input_defs)
  have d: "state (fsm five_users (1, 1)) = None"
    using non_admin_idle [OF five_users_reachable, of 1 1]
    by (simp add: example_config_def no_session_def)
  then have "state (fsm five_users (msg_chat (text_message 1 (str ''/foo'')),
      user_id (msg_from (text_message 1 (str ''/foo''))))) = None"
    by (simp add: text_message_def tg_def)
  from dispatch_idle_other [OF this a b] c show ?thesis
    using a b d by (simp add: catch_all_slash)
qed

text \<open>
  C8, amended: a message from a sender without a state that is neither the command
  \<open>/start\<close> nor the command \<open>/admin\<close> is answered with the fallback notice, unless it is
  a text that begins with a slash, which gets no reply; the state of the bot is unchanged
  in both cases.
\<close>

theorem unrecognised_message_without_state:
  assumes "state (fsm st (msg_chat m, user_id (msg_from m))) = None"
    and "handles_command cfg ''start'' None m = Inr False"
    and "handles_command cfg ''admin'' None m = Inr False"
  shows "dispatch cfg e (Message m) st =
     Inr (st, if slash_text m then [] else [reply m fallback_text None])"
  using assms by (simp add: dispatch_idle_other catch_all_slash)

theorem unrecognised_message_without_state_witness:
  "state (fsm five_users (msg_chat (text_message 1 (str ''hello'')),
                          user_id (msg_from (text_message 1 (str ''hello''))))) = None \<and>
   handles_command example_config ''start'' None (text_message 1 (str ''hello'')) = Inr False \<and>
   handles_command example_config ''admin'' None (text_message 1 (str ''hello'')) = Inr False \<and>
   \<not> slash_text (text_message 1 (str ''hello'')) \<and>
   dispatch example_config all_delivered (Message (text_message 1 (str ''hello''))) five_users =
     Inr (five_users, [reply (text_message 1 (str ''hello'')) fallback_text None])"
proof -
  have a: "handles_command example_config ''start'' None (text_message 1 (str ''hello'')) =
      Inr False"
    and b: "handles_command example_config ''admin'' None (text_message 1 (str ''hello'')) =
      Inr False"
    and c: "\<not> slash_text (text_message 1 (str ''hello''))"
    by (simp_all add: handles_command_def command_filter_def slash_text_def text_defs input_defs)
  have d: "state (fsm five_users (msg_chat (text_message 1 (str ''hello'')),
      user_id (msg_from (text_message 1 (str ''hello''))))) = None"
    using non_admin_idle [OF five_users_reachable, of 1 1]
    by (simp add: example_config_def no_session_def text_message_def tg_def)
  from unrecognised_message_without_state [OF d a b, of all_delivered] c
  show ?thesis using a b d by simp
qed

text \<open>
  C9, as the specification states it: in a state that awaits a text, a slash-style command
  is not consumed as the expected text. The administrator, asked for the card number,
  sends \<open>/foo\<close>: the dispatcher gives it to \<open>receive_card_number\<close>, which stores
  \<open>/foo\<close> as the card number and goes on to ask for the name.
\<close>

theorem slash_command_consumed_counterexample:
  "slash_text (text_message 1000 (str ''/foo'')) \<and>
   state (fsm card_pending (1000, 1000)) = Some waiting_card_number \<and>
   dispatch example_config all_delivered (Message (text_message 1000 (str ''/foo'')))
       card_pending =
     receive_card_number example_config (text_message 1000 (str ''/foo'')) card_pending \<and>
   data (fsm (state_after
                (dispatch example_config all_delivered
                   (Message (text_message 1000 (str ''/foo''))) card_pending)
                card_pending) (1000, 1000)) ''card_number'' = Some (str ''/foo'') \<and>
   state (fsm (state_after
                 (dispatch example_config all_delivered
                    (Message (text_message 1000 (str ''/foo''))) card_pending)
                 card_pending) (1000, 1000)) = Some waiting_recipient_fio"
proof -
  have routed: "dispatch example_config all_delivered
      (Message (text_message 1000 (str ''/foo''))) card_pending =
      receive_card_number example_config (text_message 1000 (str ''/foo'')) card_pending"
    using dispatch_text_in_state [of "text_message 1000 (str ''/foo'')" "str ''/foo''"
        card_pending waiting_card_number example_config all_delivered]
      card_pending_state
    by (simp add: text_message_def tg_def)
  show ?thesis
    unfolding routed
    using foo_facts(4,5) card_pending_state
    by (simp add: receive_card_number_def text_message_def tg_def example_config_def state_defs
        Let_def)
qed

text \<open>
  C9, amended: every text of the administrator that arrives in one of the three states
  that await a text is taken as the expected text, whether or not it begins with a slash:
  it becomes the draft of the broadcast (cut to 4000 code points), the draft of the card
  number (stripped), or the name of the recipient (stripped), which is saved together with
  the draft of the card number.
\<close>

theorem text_in_awaiting_state_is_consumed:
  assumes "user_id (msg_from m) = ADMIN_ID cfg"
    and "msg_text m = Some t"
    and "state (fsm st (msg_chat m, ADMIN_ID cfg)) = Some s"
    and "s \<in> {waiting_broadcast_text, waiting_card_number, waiting_recipient_fio}"
  shows "\<exists>st' acts.
     dispatch cfg e (Message m) st = Inr (st', acts) \<and>
     (if s = waiting_broadcast_text
      then data (fsm st' (msg_chat m, ADMIN_ID cfg)) ''broadcast_text'' = Some (take 4000 t) \<and>
           state (fsm st' (msg_chat m, ADMIN_ID cfg)) = Some waiting_broadcast_confirm
      else if s = waiting_card_number
      then data (fsm st' (msg_chat m, ADMIN_ID cfg)) ''card_number'' = Some (strip t) \<and>
           state (fsm st' (msg_chat m, ADMIN_ID cfg)) = Some waiting_recipient_fio
      else db_get_setting st' (str ''recipient_fio'') = strip t \<and>
           db_get_setting st' (str ''card_number'') =
             get_data (msg_chat m, ADMIN_ID cfg) ''card_number'' st \<and>
           fsm st' (msg_chat m, ADMIN_ID cfg) = no_session)"
  using assms
  by (auto simp: dispatch_text_in_state receive_broadcast_text_def receive_card_number_def
      receive_recipient_fio_def state_defs db_get_setting_def get_data_def Let_def str_def)

theorem text_in_awaiting_state_is_consumed_witness:
  "user_id (msg_from (text_message 1000 (str ''/foo''))) = ADMIN_ID example_config \<and>
   msg_text (text_message 1000 (str ''/foo'')) = Some (str ''/foo'') \<and>
   state (fsm card_pending (msg_chat (text_message 1000 (str ''/foo'')), ADMIN_ID example_config)) =
     Some waiting_card_number \<and>
   waiting_card_number \<in> {waiting_broadcast_text, waiting_card_number, waiting_recipient_fio} \<and>
   slash_text (text_message 1000 (str ''/foo'')) \<and>
   (\<exists>st' acts.
      dispatch example_config all_delivered (Message (text_message 1000 (str ''/foo'')))
        card_pending = Inr (st', acts) \<and>
      data (fsm st' (msg_chat (text_message 1000 (str ''/foo'')), ADMIN_ID example_config))
        ''card_number'' = Some (strip (str ''/foo'')) \<and>
      state (fsm st' (msg_chat (text_message 1000 (str ''/foo'')), ADMIN_ID example_config)) =
        Some waiting_recipient_fio)"
proof -
  have s: "waiting_card_number \<in>
      {waiting_broadcast_text, waiting_card_number, waiting_recipient_fio}"
    by simp
  from text_in_awaiting_state_is_consumed [OF foo_facts(1-3) s, of all_delivered]
  show ?thesis
    using foo_facts(1-4) by simp
qed

text \<open>
  C5. The specification wants the round trip from the welcome screen and back to render
  the welcome screen as \<open>/start\<close> rendered it. User 1 sends \<open>/start\<close>, presses "buy",
  selects the first subject and the second programme, and goes back twice: \<open>back_start\<close>
  then renders the keyboard and the parse mode of \<open>cmd_start\<close>, but a text of 152 code
  points that stops after "video lessons" with three dots, where \<open>cmd_start\<close> sent
  416 code points.
\<close>

theorem round_trip_changes_welcome_text:
  "actions_of (dispatch example_config all_delivered
                 (Message (text_message 1 (str ''/start''))) started) =
     [SendMessage 1 welcome_text (Some make_start_keyboard) (Some ''Markdown'') None] \<and>
   actions_of (dispatch example_config all_delivered
                 (CallbackQuery (button_press 1 (str ''back_start'')))
                 (run example_config (start_from 1 # navigation) started)) =
     [AnswerCallback None False,
      EditMessageText 1 1 back_start_text (Some make_start_keyboard) (Some ''Markdown'')] \<and>
   back_start_text \<noteq> welcome_text \<and>
   length welcome_text = 416 \<and> length back_start_text = 152 \<and>
   take 149 back_start_text = take 149 welcome_text"
proof -
  have "reachable example_config (run example_config (start_from 1 # navigation) started)"
    unfolding started_def by (intro reachable_run reachable.first_start)
  from non_admin_idle [OF this, of 1 1]
  have "state (fsm (run example_config (start_from 1 # navigation) started)
      (cb_chat (button_press 1 (str ''back_start'')),
       user_id (cb_from (button_press 1 (str ''back_start''))))) = None"
    by (simp add: example_config_def no_session_def button_press_def tg_def)
  then have routed: "dispatch example_config all_delivered
      (CallbackQuery (button_press 1 (str ''back_start'')))
      (run example_config (start_from 1 # navigation) started) =
      back_start (button_press 1 (str ''back_start''))
        (run example_config (start_from 1 # navigation) started)"
    by (rule dispatch_back_start) (simp add: button_press_def)
  have "actions_of (dispatch example_config all_delivered
                 (Message (text_message 1 (str ''/start''))) started) =
     [SendMessage 1 welcome_text (Some make_start_keyboard) (Some ''Markdown'') None]"
    unfolding dispatch_start by (simp add: actions_of_def cmd_start_def text_message_def)
  moreover have "actions_of (dispatch example_config all_delivered
                 (CallbackQuery (button_press 1 (str ''back_start'')))
                 (run example_config (start_from 1 # navigation) started)) =
     [AnswerCallback None False,
      EditMessageText 1 1 back_start_text (Some make_start_keyboard) (Some ''Markdown'')]"
    unfolding routed
    by (simp add: actions_of_def back_start_def edit_message_text_def button_press_def)
  moreover have "length welcome_text = 416" "length back_start_text = 152"
    "take 149 back_start_text = take 149 welcome_text"
    by (simp_all add: back_start_text_def welcome_text_def)
  ultimately show ?thesis
    using welcome_texts_differ by blast
qed

text \<open>
  C3. The administrator is asked for the card number and sends \<open>t1\<close>, then \<open>t2\<close> for
  the name, while other users may use the bot in between: both messages are handled
  without an exception, and the settings then hold \<open>t1\<close> and \<open>t2\<close> stripped of the
  surrounding white space under \<open>card_number\<close> and \<open>recipient_fio\<close>. They still hold
  them after any further updates of other users, and a press on a programme's button by a
  user without a state is then answered with a product text that shows exactly these two
  values, one on a line each under the heading of the payment details:
  \<open>process_school\<close> reads the settings when it renders.
\<close>

theorem payment_details_flow:
  assumes "user_id (msg_from m1) = ADMIN_ID cfg" and "msg_text m1 = Some t1"
    and "user_id (msg_from m2) = ADMIN_ID cfg" and "msg_text m2 = Some t2"
    and "msg_chat m2 = msg_chat m1"
    and "state (fsm st (msg_chat m1, ADMIN_ID cfg)) = Some waiting_card_number"
    and "from_others cfg between" and "from_others cfg later"
    and "st2 = run cfg ((e1, Message m1) # between @ [(e2, Message m2)]) st"
    and "st3 = run cfg later st2"
    and "state (fsm st3 (cb_chat cb, user_id (cb_from cb))) = None"
    and "map_of SUBJECTS k = Some (title, price)"
    and "cb_data cb = Some (str ''school|'' @ k @ str ''|'' @ school)"
  shows "(\<exists>st1. dispatch cfg e1 (Message m1) st = Inr (st1, [reply m1 fio_prompt None]) \<and>
               dispatch cfg e2 (Message m2) (run cfg between st1) =
                 Inr (st2, [reply m2 (details_updated_text (strip t1) (strip t2)) None])) \<and>
         db_get_setting st2 (str ''card_number'') = strip t1 \<and>
         db_get_setting st2 (str ''recipient_fio'') = strip t2 \<and>
         db_get_setting st3 (str ''card_number'') = strip t1 \<and>
         db_get_setting st3 (str ''recipient_fio'') = strip t2 \<and>
         (\<exists>txt pre post.
            dispatch cfg e3 (CallbackQuery cb) st3 =
              Inr (st3, [AnswerCallback None False,
                         edit_message_text cb txt product_keyboard (Some ''Markdown'')]) \<and>
            txt = product_text title school price (strip t1) (strip t2) \<and>
            txt = pre @ details_heading @ strip t1 @ [10] @ strip t2 @ post \<and>
            contains txt (strip t1) \<and> contains txt (strip t2))"
proof -
  let ?key = "(msg_chat m1, ADMIN_ID cfg)"
  let ?st1 = "set_state ?key waiting_recipient_fio (update_data ?key ''card_number'' (strip t1) st)"
  let ?mid = "run cfg between ?st1"
  let ?txt = "product_text title school price (strip t1) (strip t2)"
  have 1: "dispatch cfg e1 (Message m1) st = Inr (?st1, [reply m1 fio_prompt None])"
    using assms(1,2,6) by (simp add: dispatch_text_in_state receive_card_number_def Let_def)
  have mid: "fsm ?mid = fsm ?st1" "settings ?mid = settings ?st1"
    using others_run [OF assms(7), of ?st1] by simp_all
  have f1: "state (fsm ?st1 ?key) = Some waiting_recipient_fio"
    "data (fsm ?st1 ?key) ''card_number'' = Some (strip t1)"
    by (simp_all add: state_defs)
  have s1: "state (fsm ?mid (msg_chat m2, user_id (msg_from m2))) = Some waiting_recipient_fio"
    using assms(3,5) f1 by (simp add: mid(1))
  have d1: "get_data ?key ''card_number'' ?mid = strip t1"
    using f1 by (simp add: get_data_def mid(1) or_empty_def)
  let ?st2 = "finish ?key (db_set_setting (str ''recipient_fio'') (strip t2)
             (db_set_setting (str ''card_number'') (strip t1) ?mid))"
  have 2: "dispatch cfg e2 (Message m2) ?mid =
      Inr (?st2, [reply m2 (details_updated_text (strip t1) (strip t2)) None])"
    using assms(3,4,5) d1
    by (simp add: dispatch_text_in_state [OF assms(4) s1] receive_recipient_fio_def Let_def)
  have st2: "st2 = ?st2"
    unfolding assms(9) by (simp add: 1 2 run_append)
  have set2: "settings st2 =
      (settings ?mid)(str ''card_number'' \<mapsto> strip t1, str ''recipient_fio'' \<mapsto> strip t2)"
    unfolding st2 by (simp add: state_defs)
  have set3: "settings st3 = settings st2"
    unfolding assms(10) using others_run [OF assms(8), of st2] by simp
  have card2: "db_get_setting st2 (str ''card_number'') = strip t1"
    and fio2: "db_get_setting st2 (str ''recipient_fio'') = strip t2"
    using settings_keys_differ by (simp_all add: db_get_setting_def set2)
  then have card3: "db_get_setting st3 (str ''card_number'') = strip t1"
    and fio3: "db_get_setting st3 (str ''recipient_fio'') = strip t2"
    by (simp_all add: db_get_setting_def set3)
  have "dispatch cfg e3 (CallbackQuery cb) st3 = process_school cb st3"
    using assms(11,13) by (rule dispatch_school)
  then have render: "dispatch cfg e3 (CallbackQuery cb) st3 =
      Inr (st3, [AnswerCallback None False,
                 edit_message_text cb ?txt product_keyboard (Some ''Markdown'')])"
    by (simp add: process_school_render [OF assms(12,13)] card3 fio3)
  obtain pre post where
    shape: "?txt = pre @ details_heading @ strip t1 @ [10] @ strip t2 @ post"
    using product_text_shows(1) by blast
  have "\<exists>txt pre post.
            dispatch cfg e3 (CallbackQuery cb) st3 =
              Inr (st3, [AnswerCallback None False,
                         edit_message_text cb txt product_keyboard (Some ''Markdown'')]) \<and>
            txt = ?txt \<and>
            txt = pre @ details_heading @ strip t1 @ [10] @ strip t2 @ post \<and>
            contains txt (strip t1) \<and> contains txt (strip t2)"
    using render shape product_text_shows(2,3) by blast
  moreover have "\<exists>st1. dispatch cfg e1 (Message m1) st = Inr (st1, [reply m1 fio_prompt None]) \<and>
               dispatch cfg e2 (Message m2) (run cfg between st1) =
                 Inr (st2, [reply m2 (details_updated_text (strip t1) (strip t2)) None])"
    using 1 2 st2 by blast
  ultimately show ?thesis
    using card2 fio2 card3 fio3 by blast
qed

theorem payment_details_flow_witness:
  "user_id (msg_from card_message) = ADMIN_ID example_config \<and>
   msg_text card_message = Some (str '' 4000 1234 '') \<and>
   user_id (msg_from fio_message) = ADMIN_ID example_config \<and>
   msg_text fio_message = Some (str ''Ivan Petrov '') \<and>
   msg_chat fio_message = msg_chat card_message \<and>
   state (fsm card_pending (msg_chat card_message, ADMIN_ID example_config)) =
     Some waiting_card_number \<and>
   from_others example_config traffic_between \<and>
   from_others example_config traffic_after \<and>
   details_set =
     run example_config
       ((all_delivered, Message card_message) # traffic_between @
        [(all_delivered, Message fio_message)])
       card_pending \<and>
   later_state = run example_config traffic_after details_set \<and>
   state (fsm later_state (cb_chat product_press, user_id (cb_from product_press))) = None \<and>
   map_of SUBJECTS (fst (hd SUBJECTS)) =
     Some (fst (snd (hd SUBJECTS)), snd (snd (hd SUBJECTS))) \<and>
   cb_data product_press = Some (str ''school|'' @ fst (hd SUBJECTS) @ str ''|'' @ pifagor) \<and>
   db_get_setting later_state (str ''card_number'') = str ''4000 1234'' \<and>
   db_get_setting later_state (str ''recipient_fio'') = str ''Ivan Petrov'' \<and>
   (\<exists>txt pre post.
      dispatch example_config all_delivered (CallbackQuery product_press) later_state =
        Inr (later_state,
             [AnswerCallback None False,
              edit_message_text product_press txt product_keyboard (Some ''Markdown'')]) \<and>
      txt = pre @ details_heading @ str ''4000 1234'' @ [10] @ str ''Ivan Petrov'' @ post \<and>
      contains txt (str ''4000 1234'') \<and> contains txt (str ''Ivan Petrov''))"
proof -
  have run2: "details_set =
     run example_config
       ((all_delivered, Message card_message) # traffic_between @
        [(all_delivered, Message fio_message)])
       card_pending"
    by (simp only: details_set_def)
  have run3: "later_state = run example_config traffic_after details_set"
    by (simp only: later_state_def)
  from payment_details_flow [OF details_flow_facts run2 run3 product_press_facts,
      of all_delivered, unfolded stripped]
  have "db_get_setting later_state (str ''card_number'') = str ''4000 1234'' \<and>
   db_get_setting later_state (str ''recipient_fio'') = str ''Ivan Petrov'' \<and>
   (\<exists>txt pre post.
      dispatch example_config all_delivered (CallbackQuery product_press) later_state =
        Inr (later_state,
             [AnswerCallback None False,
              edit_message_text product_press txt product_keyboard (Some ''Markdown'')]) \<and>
      txt = pre @ details_heading @ str ''4000 1234'' @ [10] @ str ''Ivan Petrov'' @ post \<and>
      contains txt (str ''4000 1234'') \<and> contains txt (str ''Ivan Petrov''))"
    by blast
  then show ?thesis
    by (intro conjI details_flow_facts run2 run3 product_press_facts) blast+
qed

end
